theory Spec2Isabelle
  imports Main
begin

section \<open>JavaScript values and strings\<close>

text \<open>
  The TypeScript types of the repository are erased at run time: what \<^verbatim>\<open>JSON.parse\<close>
  returns is an arbitrary JSON value, whatever interface the code casts it to. The model
  therefore works on JSON values. A property read \<^verbatim>\<open>v.k\<close> yields a value or
  \<^verbatim>\<open>undefined\<close>; the latter is \<open>None\<close>. Numbers are restricted to integers. An
  object is an association list, read by its first binding of a key.
\<close>

datatype json =
    JNull
  | JBool bool
  | JNum int
  | JStr string
  | JArr "json list"
  | JObj "(string \<times> json) list"

datatype error = Error string | TypeError string | SyntaxError string

fun err_message :: "error \<Rightarrow> string" where
  "err_message (Error m) = m"
| "err_message (TypeError m) = m"
| "err_message (SyntaxError m) = m"

text \<open>JavaScript truthiness of a value that may be \<^verbatim>\<open>undefined\<close>.\<close>

fun truthy :: "json option \<Rightarrow> bool" where
  "truthy None = False"
| "truthy (Some JNull) = False"
| "truthy (Some (JBool b)) = b"
| "truthy (Some (JNum n)) = (n \<noteq> 0)"
| "truthy (Some (JStr s)) = (s \<noteq> [])"
| "truthy (Some (JArr xs)) = True"
| "truthy (Some (JObj kvs)) = True"

text \<open>
  \<^verbatim>\<open>v.k\<close> for one of the keys the code reads (\<^verbatim>\<open>type\<close>, \<^verbatim>\<open>item\<close>, \<^verbatim>\<open>text\<close>,
  \<^verbatim>\<open>part\<close>, the observer state's fields): it throws a TypeError on \<^verbatim>\<open>null\<close>, is a
  lookup on an object, and is \<^verbatim>\<open>undefined\<close> on a boolean, a number, a string or an
  array (none of which has such a property).
\<close>

fun get_prop :: "json \<Rightarrow> string \<Rightarrow> error + json option" where
  "get_prop JNull k = Inl (TypeError (''Cannot read properties of null (reading '' @ k @ '')''))"
| "get_prop (JObj kvs) k = Inr (map_of kvs k)"
| "get_prop v k = Inr None"

text \<open>\<^verbatim>\<open>v?.k\<close>: \<^verbatim>\<open>undefined\<close> when \<open>v\<close> is \<^verbatim>\<open>null\<close> or \<^verbatim>\<open>undefined\<close>.\<close>

fun opt_prop :: "json option \<Rightarrow> string \<Rightarrow> json option" where
  "opt_prop (Some (JObj kvs)) k = map_of kvs k"
| "opt_prop v k = None"

text \<open>\<^verbatim>\<open>String.prototype.trim\<close> (on the ASCII white space) and \<^verbatim>\<open>split('\n')\<close>.\<close>

definition js_ws :: "char \<Rightarrow> bool" where
  "js_ws c = (c \<in> set [CHR '' '', CHR 0x09, CHR 0x0A, CHR 0x0B, CHR 0x0C, CHR 0x0D])"

definition trim :: "string \<Rightarrow> string" where
  "trim s = rev (dropWhile js_ws (rev (dropWhile js_ws s)))"

fun split_on :: "char \<Rightarrow> string \<Rightarrow> string list" where
  "split_on c [] = [[]]"
| "split_on c (x # xs) =
     (if x = c then [] # split_on c xs
      else (case split_on c xs of
              [] \<Rightarrow> [[x]]
            | y # ys \<Rightarrow> (x # y) # ys))"

text \<open>\<^verbatim>\<open>Array.prototype.join\<close> on strings.\<close>

fun join :: "string \<Rightarrow> string list \<Rightarrow> string" where
  "join sep [] = []"
| "join sep [x] = x"
| "join sep (x # y # ys) = x @ sep @ join sep (y # ys)"

text \<open>Decimal rendering of an integer, as a template literal prints a number.\<close>

definition digit_char :: "nat \<Rightarrow> char" where
  "digit_char n = ''0123456789'' ! (n mod 10)"

function string_of_nat :: "nat \<Rightarrow> string" where
  "string_of_nat n =
     (if n < 10 then [digit_char n] else string_of_nat (n div 10) @ [digit_char n])"
  by pat_completeness auto
termination
  by (relation "measure id") auto

declare string_of_nat.simps [simp del]

definition string_of_int :: "int \<Rightarrow> string" where
  "string_of_int i = (if i < 0 then CHR ''-'' # string_of_nat (nat (- i)) else string_of_nat (nat i))"

text \<open>
  \<^verbatim>\<open>JSON.parse\<close> belongs to the runtime, not to the repository: it is a parameter of the
  model. It returns the parsed value or throws a SyntaxError, whose message is the \<open>Inl\<close>.
  Every general theorem below holds for every parser. A concrete example fixes the parser
  on the texts it uses by listing its graph there; elsewhere that parser throws.
\<close>

type_synonym parser = "string \<Rightarrow> string + json"

definition JSON_parse :: "parser \<Rightarrow> string \<Rightarrow> error + json" where
  "JSON_parse p s = (case p s of Inl m \<Rightarrow> Inl (SyntaxError m) | Inr v \<Rightarrow> Inr v)"

definition parser_of_graph :: "(string \<times> json) list \<Rightarrow> parser" where
  "parser_of_graph g s =
     (case map_of g s of None \<Rightarrow> Inl ''Unexpected token'' | Some v \<Rightarrow> Inr v)"

section \<open>Subprocess backends\<close>

text \<open>
  \<^verbatim>\<open>runCommand\<close> resolves with the child's standard output when it closes with code 0 and
  rejects otherwise: with the spawn error, or with the trimmed standard error (a generic
  message when that is empty). The child is the environment's: its outcome is an input.
  The exit code is \<^verbatim>\<open>null\<close> (\<open>None\<close>) when a signal ended the child.
\<close>

datatype proc_outcome =
    SpawnFailed string
  | Closed "int option" string string

definition code_text :: "int option \<Rightarrow> string" where
  "code_text c = (case c of None \<Rightarrow> ''null'' | Some n \<Rightarrow> string_of_int n)"

fun runCommand :: "proc_outcome \<Rightarrow> error + string" where
  "runCommand (SpawnFailed m) = Inl (Error m)"
| "runCommand (Closed code out err) =
     (if code = Some 0 then Inr out
      else Inl (Error (if trim err \<noteq> [] then trim err
                       else ''Command exited with code '' @ code_text code)))"

subsection \<open>Codex: \<^verbatim>\<open>codex exec ... --json\<close>\<close>

text \<open>
  One turn of the loop over the output lines. The body of the \<^verbatim>\<open>try\<close> throws when
  \<^verbatim>\<open>JSON.parse\<close> throws and when the parsed value is \<^verbatim>\<open>null\<close> (\<^verbatim>\<open>json.type\<close> on
  \<^verbatim>\<open>null\<close>); the \<^verbatim>\<open>catch\<close> swallows both, leaving \<open>response\<close> as it was. Otherwise a
  line whose \<^verbatim>\<open>type\<close> is \<^verbatim>\<open>item.completed\<close> and whose \<^verbatim>\<open>item?.type\<close> is
  \<^verbatim>\<open>agent_message\<close> assigns \<^verbatim>\<open>json.item.text\<close>, whatever it is, to \<open>response\<close>.
\<close>

definition codex_try :: "parser \<Rightarrow> json option \<Rightarrow> string \<Rightarrow> error + json option" where
  "codex_try p response line =
     (case JSON_parse p line of
        Inl e \<Rightarrow> Inl e
      | Inr j \<Rightarrow>
          (case get_prop j ''type'' of
             Inl e \<Rightarrow> Inl e
           | Inr t \<Rightarrow>
               if t = Some (JStr ''item.completed'') \<and>
                  opt_prop (opt_prop (Some j) ''item'') ''type'' = Some (JStr ''agent_message'')
               then Inr (opt_prop (opt_prop (Some j) ''item'') ''text'')
               else Inr response))"

definition codex_step :: "parser \<Rightarrow> json option \<Rightarrow> string \<Rightarrow> json option" where
  "codex_step p response line =
     (case codex_try p response line of Inl e \<Rightarrow> response | Inr r \<Rightarrow> r)"

definition codex_fallback :: string where
  "codex_fallback = ''Sorry, I could not generate a response from Codex.''"

text \<open>\<^verbatim>\<open>response || fallback\<close>.\<close>

definition or_fallback :: "json option \<Rightarrow> string \<Rightarrow> json" where
  "or_fallback response fb =
     (case response of
        None \<Rightarrow> JStr fb
      | Some v \<Rightarrow> if truthy (Some v) then v else JStr fb)"

definition codex_response :: "parser \<Rightarrow> string \<Rightarrow> json" where
  "codex_response p codexOutput =
     or_fallback (foldl (codex_step p) (Some (JStr [])) (split_on CHR 0x0A (trim codexOutput)))
       codex_fallback"

subsection \<open>OpenCode: \<^verbatim>\<open>opencode run --format json\<close>\<close>

definition opencode_try :: "parser \<Rightarrow> json option \<Rightarrow> string \<Rightarrow> error + json option" where
  "opencode_try p response line =
     (case JSON_parse p line of
        Inl e \<Rightarrow> Inl e
      | Inr j \<Rightarrow>
          (case get_prop j ''type'' of
             Inl e \<Rightarrow> Inl e
           | Inr t \<Rightarrow>
               if t = Some (JStr ''text'') \<and>
                  truthy (opt_prop (opt_prop (Some j) ''part'') ''text'')
               then Inr (opt_prop (opt_prop (Some j) ''part'') ''text'')
               else Inr response))"

definition opencode_step :: "parser \<Rightarrow> json option \<Rightarrow> string \<Rightarrow> json option" where
  "opencode_step p response line =
     (case opencode_try p response line of Inl e \<Rightarrow> response | Inr r \<Rightarrow> r)"

definition opencode_fallback :: string where
  "opencode_fallback = ''Sorry, I could not generate a response from OpenCode.''"

definition opencode_response :: "parser \<Rightarrow> string \<Rightarrow> json" where
  "opencode_response p opencodeOutput =
     or_fallback
       (foldl (opencode_step p) (Some (JStr [])) (split_on CHR 0x0A (trim opencodeOutput)))
       opencode_fallback"

text \<open>
  The two subprocess branches of \<^verbatim>\<open>invokeAgent\<close>: the rejection of \<^verbatim>\<open>runCommand\<close>
  propagates, its output is scanned.
\<close>

definition invoke_codex :: "parser \<Rightarrow> proc_outcome \<Rightarrow> error + json" where
  "invoke_codex p outcome =
     (case runCommand outcome of Inl e \<Rightarrow> Inl e | Inr out \<Rightarrow> Inr (codex_response p out))"

definition invoke_opencode :: "parser \<Rightarrow> proc_outcome \<Rightarrow> error + json" where
  "invoke_opencode p outcome =
     (case runCommand outcome of Inl e \<Rightarrow> Inl e | Inr out \<Rightarrow> Inr (opencode_response p out))"

section \<open>The observer bridge\<close>

text \<open>
  The file system is a map from paths to entries; an entry that exists may still fail to
  be read (a directory, a permission). \<^verbatim>\<open>path.join\<close> is rendered without Node's
  normalisation of the joined path, which no result below depends on.
\<close>

datatype fs_entry = Readable string | Unreadable string

type_synonym filesystem = "string \<rightharpoonup> fs_entry"

definition path_join :: "string list \<Rightarrow> string" where
  "path_join parts = join ''/'' parts"

definition existsSync :: "filesystem \<Rightarrow> string \<Rightarrow> bool" where
  "existsSync fs path = (fs path \<noteq> None)"

definition readFileSync :: "filesystem \<Rightarrow> string \<Rightarrow> error + string" where
  "readFileSync fs path =
     (case fs path of
        None \<Rightarrow> Inl (Error (''ENOENT: no such file or directory, open '' @ path))
      | Some (Readable s) \<Rightarrow> Inr s
      | Some (Unreadable m) \<Rightarrow> Inl (Error m))"

datatype level = INFO | WARN

text \<open>
  The options \<^verbatim>\<open>invokeAgent\<close> hands to the SDK's \<^verbatim>\<open>query\<close>, as far as they vary:
  the working directory, the text appended to the preset system prompt, the model, and
  the session fields (\<^verbatim>\<open>continue\<close>, or a fresh \<^verbatim>\<open>sessionId\<close> with
  \<^verbatim>\<open>persistSession: false\<close>). A field left unset is \<open>None\<close>.
\<close>

record query_options =
  qo_cwd :: string
  qo_append :: "string option"
  qo_maxTurns :: nat
  qo_model :: "string option"
  qo_continue :: "bool option"
  qo_sessionId :: "string option"
  qo_persistSession :: "bool option"

text \<open>
  What a call does beyond returning: log lines, the timer, the abort signal of the
  controller passed in the options, and the call of the SDK with its prompt and options.
\<close>

datatype effect =
    Log level string
  | SetTimeout nat
  | ClearTimeout
  | Abort
  | Query string query_options

definition getObserverStateDir :: "string \<Rightarrow> string \<Rightarrow> string" where
  "getObserverStateDir agentId workspacePath =
     path_join [workspacePath, agentId, ''.switchboard'', agentId]"

text \<open>
  \<^verbatim>\<open>loadObserverState\<close>: \<^verbatim>\<open>null\<close> (\<open>JNull\<close>) when the state file does not exist;
  otherwise the parsed content as it is, cast to \<^verbatim>\<open>ObserverState\<close>; when reading or
  parsing throws, the \<^verbatim>\<open>catch\<close> logs a warning and returns \<^verbatim>\<open>null\<close>. The result type
  keeps an error channel, so that "never raises" is a statement about the function and not
  about its type.
\<close>

definition loadObserverState ::
  "parser \<Rightarrow> filesystem \<Rightarrow> string \<Rightarrow> string \<Rightarrow> error + (json \<times> effect list)" where
  "loadObserverState p fs agentId workspacePath =
     (let stateDir = getObserverStateDir agentId workspacePath;
          stateFile = path_join [stateDir, ''observer_state.json'']
      in if \<not> existsSync fs stateFile then Inr (JNull, [])
         else
           (case (case readFileSync fs stateFile of
                    Inl e \<Rightarrow> Inl e
                  | Inr raw \<Rightarrow> JSON_parse p raw) of
              Inr data \<Rightarrow> Inr (data, [])
            | Inl err \<Rightarrow>
                Inr (JNull,
                  [Log WARN (''Failed to read observer state for '' @ agentId @ '': '' @
                     err_message err)])))"

text \<open>
  \<^verbatim>\<open>readObserverState\<close> of the HTTP route: the parsed content as it is, or, when reading
  or parsing throws, the state with every field at its default.
\<close>

definition default_state :: json where
  "default_state =
     JObj [(''observations_text'', JStr []),
           (''total_tokens_observed'', JNum 0),
           (''observation_count'', JNum 0),
           (''reflection_count'', JNum 0),
           (''last_observed_at'', JNull),
           (''current_task'', JStr []),
           (''suggested_response'', JStr [])]"

definition readObserverState :: "parser \<Rightarrow> filesystem \<Rightarrow> string \<Rightarrow> json" where
  "readObserverState p fs agentDir =
     (let stateFile = path_join [agentDir, ''.switchboard'', ''observer_state.json'']
      in case (case readFileSync fs stateFile of
                 Inl e \<Rightarrow> Inl e
               | Inr raw \<Rightarrow> JSON_parse p raw) of
           Inr data \<Rightarrow> data
         | Inl err \<Rightarrow> default_state)"

text \<open>
  What a template literal prints for a value: JavaScript's \<^verbatim>\<open>ToString\<close>.
\<close>

fun js_string :: "json \<Rightarrow> string" where
  "js_string JNull = ''null''"
| "js_string (JBool b) = (if b then ''true'' else ''false'')"
| "js_string (JNum n) = string_of_int n"
| "js_string (JStr s) = s"
| "js_string (JArr xs) = join '','' (map (\<lambda>x. if x = JNull then [] else js_string x) xs)"
| "js_string (JObj kvs) = ''[object Object]''"

definition template :: "json option \<Rightarrow> string" where
  "template v = (case v of None \<Rightarrow> ''undefined'' | Some j \<Rightarrow> js_string j)"

text \<open>
  \<^verbatim>\<open>formatObservationsPrompt\<close>. Reading a field of \<^verbatim>\<open>null\<close> throws; on every other
  value the block is built, with \<^verbatim>\<open>state.observations_text\<close> printed as it is.
\<close>

definition formatObservationsPrompt :: "json \<Rightarrow> error + string" where
  "formatObservationsPrompt state =
     (case get_prop state ''current_task'' of
        Inl e \<Rightarrow> Inl e
      | Inr current_task \<Rightarrow>
          (let suggested_response = opt_prop (Some state) ''suggested_response'';
               observations_text = opt_prop (Some state) ''observations_text'';
               parts =
                 [''<observer-context>''] @
                 (if truthy current_task
                  then [''<current-task>'' @ template current_task @ ''</current-task>'']
                  else []) @
                 (if truthy suggested_response
                  then [''<suggested-response>'' @ template suggested_response @
                        ''</suggested-response>'']
                  else []) @
                 [''<observations>'' @ template observations_text @ ''</observations>'',
                  ''</observer-context>'',
                  [],
                  ''Reference specific details from these observations when relevant.'',
                  ''Prefer the MOST RECENT information when observations conflict.'']
           in Inr (join [CHR 0x0A] parts)))"

section \<open>The native streaming backend\<close>

text \<open>
  A message of the SDK's stream, as the loop reads it: its \<^verbatim>\<open>type\<close>, and the optional
  \<^verbatim>\<open>subtype\<close>, \<^verbatim>\<open>session_id\<close>, \<^verbatim>\<open>result\<close>, \<^verbatim>\<open>errors\<close>, \<^verbatim>\<open>message.content\<close> and
  \<^verbatim>\<open>isReplay\<close>. An absent field is \<open>None\<close>.
\<close>

record sdk_msg =
  msg_type :: string
  msg_subtype :: "string option"
  msg_session_id :: "string option"
  msg_result :: "string option"
  msg_errors :: "string list option"
  msg_content :: "json option"
  msg_isReplay :: bool

text \<open>
  What the \<^verbatim>\<open>for await\<close> loop meets while it waits for the stream: the next message,
  an exception thrown by the generator (so after an abort), or the expiry of the timer's
  delay, at which the runtime runs the timer's callback. The end of the list is the end of
  the stream.
\<close>

datatype stream_item = Yield sdk_msg | Raise string | TimerFires

record observer_message =
  om_role :: string
  om_content :: json

record invoke_result =
  ir_response :: "string option"
  ir_messages :: "observer_message list"
  ir_sessionId :: "string option"

record agent_config =
  ac_name :: string
  ac_provider :: string
  ac_model :: string
  ac_working_directory :: string
  ac_observer_enabled :: bool

record team_config =
  tc_name :: string
  tc_agents :: "string list"
  tc_leader_agent :: string

definition SDK_QUERY_TIMEOUT_MS :: nat where
  "SDK_QUERY_TIMEOUT_MS = 120000"

text \<open>Truthiness of an optional string: present and not empty.\<close>

definition truthy_str :: "string option \<Rightarrow> bool" where
  "truthy_str s = (case s of None \<Rightarrow> False | Some t \<Rightarrow> t \<noteq> [])"

fun collectObserverMessages :: "sdk_msg list \<Rightarrow> observer_message list" where
  "collectObserverMessages [] = []"
| "collectObserverMessages (msg # rest) =
     (if msg_isReplay msg then collectObserverMessages rest
      else if msg_type msg = ''assistant'' \<and> truthy (msg_content msg)
      then \<lparr>om_role = ''assistant'', om_content = the (msg_content msg)\<rparr> #
           collectObserverMessages rest
      else if msg_type msg = ''user'' \<and> \<not> msg_isReplay msg \<and> truthy (msg_content msg)
      then \<lparr>om_role = ''user'', om_content = the (msg_content msg)\<rparr> #
           collectObserverMessages rest
      else collectObserverMessages rest)"

text \<open>The variables of the loop, and the timer: armed until its callback has run.\<close>

record loop_state =
  allMessages :: "sdk_msg list"
  resultText :: "string option"
  sessionId :: "string option"
  armed :: bool
  trace :: "effect list"

text \<open>
  The message of the error thrown at a result event whose subtype is not
  \<^verbatim>\<open>success\<close>: \<^verbatim>\<open>errors?.join('; ') || `SDK error: ${msg.subtype}`\<close>.
\<close>

definition generic_sdk_error :: "sdk_msg \<Rightarrow> string" where
  "generic_sdk_error msg =
     ''SDK error: '' @ (case msg_subtype msg of None \<Rightarrow> ''undefined'' | Some t \<Rightarrow> t)"

definition sdk_error_message :: "sdk_msg \<Rightarrow> string" where
  "sdk_error_message msg =
     (case msg_errors msg of
        None \<Rightarrow> generic_sdk_error msg
      | Some es \<Rightarrow> if join ''; '' es \<noteq> [] then join ''; '' es else generic_sdk_error msg)"

text \<open>The body of the loop for one message.\<close>

definition loop_body :: "loop_state \<Rightarrow> sdk_msg \<Rightarrow> error + loop_state" where
  "loop_body st msg =
     (let st1 = (if msg_type msg = ''assistant'' \<or> msg_type msg = ''user''
                 then st\<lparr>allMessages := allMessages st @ [msg]\<rparr> else st);
          st2 = (if truthy_str (msg_session_id msg) \<and> \<not> truthy_str (sessionId st1)
                 then st1\<lparr>sessionId := msg_session_id msg\<rparr> else st1)
      in if msg_type msg = ''result''
         then (if msg_subtype msg = Some ''success''
               then Inr (st2\<lparr>resultText := msg_result msg, sessionId := msg_session_id msg\<rparr>)
               else Inl (Error (sdk_error_message msg)))
         else Inr st2)"

definition timeout_warning :: "string \<Rightarrow> string" where
  "timeout_warning agentId =
     ''SDK query timed out after '' @ string_of_nat (SDK_QUERY_TIMEOUT_MS div 1000) @
     ''s (agent: '' @ agentId @ '')''"

text \<open>The timer's callback: it logs the warning and aborts the controller.\<close>

definition timeout_callback :: "string \<Rightarrow> effect list" where
  "timeout_callback agentId = [Log WARN (timeout_warning agentId), Abort]"

text \<open>
  The loop. A throwing body and a throwing generator leave it with the error; the timer's
  callback runs once, if the timer is still armed.
\<close>

fun consume :: "string \<Rightarrow> loop_state \<Rightarrow> stream_item list \<Rightarrow> error option \<times> loop_state" where
  "consume agentId st [] = (None, st)"
| "consume agentId st (Raise e # rest) = (Some (Error e), st)"
| "consume agentId st (TimerFires # rest) =
     consume agentId
       (if armed st
        then st\<lparr>armed := False, trace := trace st @ timeout_callback agentId\<rparr>
        else st)
       rest"
| "consume agentId st (Yield msg # rest) =
     (case loop_body st msg of
        Inl e \<Rightarrow> (Some e, st)
      | Inr st' \<Rightarrow> consume agentId st' rest)"

definition nl :: string where
  "nl = [CHR 0x0A]"

definition dq :: string where
  "dq = [CHR 0x22]"

definition clearance_notice :: string where
  "clearance_notice =
     ''[Your previous conversation was cleared. Your observations contain your memory of past work. Pick up where you left off.]'' @
     nl @ nl"

text \<open>
  The observer part of the prompt assembly: the parts to append to the system prompt,
  the outbound message, and the log lines of the load.
\<close>

definition observer_block ::
  "parser \<Rightarrow> filesystem \<Rightarrow> agent_config \<Rightarrow> string \<Rightarrow> string \<Rightarrow> bool \<Rightarrow> string \<Rightarrow>
   error + (string list \<times> string \<times> effect list)" where
  "observer_block p fs agent agentId workspacePath shouldReset message =
     (if ac_observer_enabled agent
      then (case loadObserverState p fs agentId workspacePath of
              Inl e \<Rightarrow> Inl e
            | Inr (state, logs) \<Rightarrow>
                if truthy (opt_prop (Some state) ''observations_text'')
                then (case formatObservationsPrompt state of
                        Inl e \<Rightarrow> Inl e
                      | Inr block \<Rightarrow>
                          Inr ([block],
                               (if shouldReset then clearance_notice @ message else message),
                               logs))
                else Inr ([], message, logs))
      else Inr ([], message, []))"

text \<open>
  Modelled from the spec: \<^verbatim>\<open>findTeamForAgent\<close> of the routing module, which is not
  among the sources; section 4.4 of the spec gives it as the first team, in iteration
  order, whose member list contains the agent.
\<close>

definition findTeamForAgent ::
  "string \<Rightarrow> (string \<times> team_config) list \<Rightarrow> (string \<times> team_config) option" where
  "findTeamForAgent agentId teams = find (\<lambda>(teamId, team). agentId \<in> set (tc_agents team)) teams"

definition team_block :: "string \<Rightarrow> (string \<times> team_config) list \<Rightarrow> string list" where
  "team_block agentId teams =
     (case findTeamForAgent agentId teams of
        None \<Rightarrow> []
      | Some (teamId, team) \<Rightarrow>
          (case filter (\<lambda>i. i \<noteq> agentId) (tc_agents team) of
             [] \<Rightarrow> []
           | first # others \<Rightarrow>
               [''<team-routing>'' @ nl @
                ''You are agent '' @ dq @ agentId @ dq @ '' in team '' @ dq @ teamId @ dq @ ''.'' @ nl @
                ''Your teammates: '' @ join '', '' (first # others) @ nl @ nl @
                ''CRITICAL: To send a message to a teammate, you MUST include the tag '' @
                ''[@teammate_id: your message] in your response text. '' @
                ''This is the ONLY way to communicate with teammates. '' @
                ''Do NOT use SendMessage, Task, or any other tool for teammate communication. '' @
                ''Do NOT claim you sent a message unless you included the [@tag: msg] in your response.'' @
                nl @ nl @
                ''Example: [@'' @ first @ '': Can you help with this task?]'' @ nl @
                ''</team-routing>'']))"

text \<open>
  What the runtime and the modules outside the sources supply: \<^verbatim>\<open>JSON.parse\<close>, the file
  system, the outcome of a spawned command (by command, arguments and working directory),
  the SDK's stream for a prompt and options, \<^verbatim>\<open>crypto.randomUUID()\<close>, and the three
  model resolvers of the configuration module.
\<close>

record environment =
  env_parse :: parser
  env_fs :: filesystem
  env_spawn :: "string \<Rightarrow> string list \<Rightarrow> string \<Rightarrow> proc_outcome"
  env_sdk :: "string \<Rightarrow> query_options \<Rightarrow> stream_item list"
  env_uuid :: string
  env_resolveClaudeModel :: "string \<Rightarrow> string"
  env_resolveCodexModel :: "string \<Rightarrow> string"
  env_resolveOpenCodeModel :: "string \<Rightarrow> string"

definition reset_log :: "string \<Rightarrow> bool \<Rightarrow> string \<Rightarrow> effect list" where
  "reset_log what shouldReset agentId =
     (if shouldReset
      then [Log INFO ([CHR 0xF0, CHR 0x9F, CHR 0x94, CHR 0x84] @ '' Resetting '' @ what @
                      ''conversation for agent: '' @ agentId)]
      else [])"

text \<open>
  The options of the call: \<^verbatim>\<open>continue\<close> when the conversation goes on; a fresh session
  id and no persistence when it is reset.
\<close>

definition native_options ::
  "environment \<Rightarrow> agent_config \<Rightarrow> bool \<Rightarrow> string list \<Rightarrow> string \<Rightarrow> query_options" where
  "native_options env agent shouldReset appendParts workingDir =
     (let continueConversation = (\<not> shouldReset);
          modelId = env_resolveClaudeModel env (ac_model agent)
      in \<lparr>qo_cwd = workingDir,
          qo_append = (if appendParts \<noteq> [] then Some (join (nl @ nl) appendParts) else None),
          qo_maxTurns = 1,
          qo_model = (if modelId \<noteq> [] then Some modelId else None),
          qo_continue = (if continueConversation then Some True else None),
          qo_sessionId = (if continueConversation then None else Some (env_uuid env)),
          qo_persistSession = (if continueConversation then None else Some False)\<rparr>)"

text \<open>
  From the timer to the return. The timer is set, and inside the \<^verbatim>\<open>try\<close> the SDK is
  called and its stream consumed; the \<^verbatim>\<open>finally\<close> clears the timer whatever the loop
  did; an error of the loop is rethrown, and otherwise the structured result is returned.
  \<open>logs\<close> is the trace so far.
\<close>

definition run_query ::
  "string \<Rightarrow> effect list \<Rightarrow> string \<Rightarrow> query_options \<Rightarrow> stream_item list \<Rightarrow>
   (error + invoke_result) \<times> effect list" where
  "run_query agentId logs prompt options stream =
     (let st0 = \<lparr>allMessages = [], resultText = Some [], sessionId = Some [], armed = True,
                 trace = logs @ [SetTimeout SDK_QUERY_TIMEOUT_MS, Query prompt options]\<rparr>;
          done = consume agentId st0 stream;
          st = snd done;
          final_trace = trace st @ [ClearTimeout]
      in case fst done of
           Some e \<Rightarrow> (Inl e, final_trace)
         | None \<Rightarrow>
             (Inr \<lparr>ir_response = resultText st,
                   ir_messages = collectObserverMessages (allMessages st),
                   ir_sessionId = sessionId st\<rparr>,
              final_trace))"

text \<open>
  The native branch of \<^verbatim>\<open>invokeAgent\<close>: the prompt assembly, then the call. The
  dynamic import of the SDK is taken to have succeeded.
\<close>

definition invoke_native ::
  "environment \<Rightarrow> agent_config \<Rightarrow> string \<Rightarrow> string \<Rightarrow> string \<Rightarrow> bool \<Rightarrow>
   (string \<times> team_config) list \<Rightarrow> string \<Rightarrow> (error + invoke_result) \<times> effect list" where
  "invoke_native env agent agentId message workspacePath shouldReset teams workingDir =
     (let logs0 = [Log INFO (''Using Claude provider via SDK (agent: '' @ agentId @ '')'')] @
                  reset_log [] shouldReset agentId
      in case observer_block (env_parse env) (env_fs env) agent agentId workspacePath
                shouldReset message of
           Inl e \<Rightarrow> (Inl e, logs0)
         | Inr (observerParts, prompt, logs1) \<Rightarrow>
             (let appendParts = observerParts @ team_block agentId teams;
                  options = native_options env agent shouldReset appendParts workingDir
              in run_query agentId (logs0 @ logs1) prompt options
                   (env_sdk env prompt options)))"

text \<open>
  \<^verbatim>\<open>invokeAgent\<close>: the working directory, the provider (\<^verbatim>\<open>anthropic\<close> when the agent
  names none) and the three branches. The subprocess branches return a plain value, the
  native branch the structured result. The provisioning of the agent's directory, which
  precedes the dispatch, is left out: it writes files no branch reads back.
\<close>

datatype invoke_return = Plain json | Structured invoke_result

definition isAbsolute :: "string \<Rightarrow> bool" where
  "isAbsolute path = (case path of [] \<Rightarrow> False | c # cs \<Rightarrow> c = CHR ''/'')"

definition codex_args :: "string \<Rightarrow> bool \<Rightarrow> string \<Rightarrow> string list" where
  "codex_args modelId shouldReset message =
     [''exec''] @
     (if \<not> shouldReset then [''resume'', ''--last''] else []) @
     (if modelId \<noteq> [] then [''--model'', modelId] else []) @
     [''--skip-git-repo-check'', ''--dangerously-bypass-approvals-and-sandbox'', ''--json'',
      message]"

definition opencode_args :: "string \<Rightarrow> bool \<Rightarrow> string \<Rightarrow> string list" where
  "opencode_args modelId shouldReset message =
     [''run'', ''--format'', ''json''] @
     (if modelId \<noteq> [] then [''--model'', modelId] else []) @
     (if \<not> shouldReset then [''-c''] else []) @
     [message]"

definition resolve_working_dir :: "agent_config \<Rightarrow> string \<Rightarrow> string \<Rightarrow> string" where
  "resolve_working_dir agent workspacePath agentId =
     (let agentDir = path_join [workspacePath, agentId]
      in if ac_working_directory agent \<noteq> []
         then (if isAbsolute (ac_working_directory agent) then ac_working_directory agent
               else path_join [workspacePath, ac_working_directory agent])
         else agentDir)"

definition provider_of :: "agent_config \<Rightarrow> string" where
  "provider_of agent = (if ac_provider agent \<noteq> [] then ac_provider agent else ''anthropic'')"

definition invokeAgent ::
  "environment \<Rightarrow> agent_config \<Rightarrow> string \<Rightarrow> string \<Rightarrow> string \<Rightarrow> bool \<Rightarrow>
   (string \<times> team_config) list \<Rightarrow> (error + invoke_return) \<times> effect list" where
  "invokeAgent env agent agentId message workspacePath shouldReset teams =
     (let workingDir = resolve_working_dir agent workspacePath agentId;
          provider = provider_of agent
      in if provider = ''openai''
         then (let logs = [Log INFO (''Using Codex CLI (agent: '' @ agentId @ '')'')] @
                          reset_log ''Codex '' shouldReset agentId;
                   modelId = env_resolveCodexModel env (ac_model agent);
                   outcome = env_spawn env ''codex'' (codex_args modelId shouldReset message)
                               workingDir
               in (map_sum id Plain (invoke_codex (env_parse env) outcome), logs))
         else if provider = ''opencode''
         then (let modelId = env_resolveOpenCodeModel env (ac_model agent);
                   logs = [Log INFO (''Using OpenCode CLI (agent: '' @ agentId @ '', model: '' @
                                     modelId @ '')'')] @
                          reset_log ''OpenCode '' shouldReset agentId;
                   outcome = env_spawn env ''opencode'' (opencode_args modelId shouldReset message)
                               workingDir
               in (map_sum id Plain (invoke_opencode (env_parse env) outcome), logs))
         else (let r = invoke_native env agent agentId message workspacePath shouldReset teams
                         workingDir
               in (map_sum id Structured (fst r), snd r)))"

section \<open>Recording an exchange: \<^verbatim>\<open>runObserver\<close>\<close>

text \<open>Helpers on strings: a prefix test, and the rest after a prefix.\<close>

fun starts_with :: "string \<Rightarrow> string \<Rightarrow> bool" where
  "starts_with s [] = True"
| "starts_with [] (p # ps) = False"
| "starts_with (c # cs) (p # ps) = (c = p \<and> starts_with cs ps)"

fun drop_prefix :: "string \<Rightarrow> string \<Rightarrow> string option" where
  "drop_prefix [] s = Some s"
| "drop_prefix (p # ps) [] = None"
| "drop_prefix (p # ps) (c # cs) = (if c = p then drop_prefix ps cs else None)"



















section \<open>Stale team references\<close>

text \<open>\<^verbatim>\<open>String.prototype.includes\<close>, and ASCII lower-casing.\<close>

fun includes_str :: "string \<Rightarrow> string \<Rightarrow> bool" where
  "includes_str [] needle = (needle = [])"
| "includes_str (c # cs) needle = (starts_with (c # cs) needle \<or> includes_str cs needle)"

definition lower_char :: "char \<Rightarrow> char" where
  "lower_char c =
     (if 65 \<le> (of_char c :: nat) \<and> (of_char c :: nat) \<le> 90 then char_of (of_char c + 32 :: nat)
      else c)"

definition lower :: "string \<Rightarrow> string" where
  "lower s = map lower_char s"

text \<open>
  Modelled from the spec: \<^verbatim>\<open>filterStaleTeamReferences\<close>, which the tests import from the
  observer module and which is not among the sources. Section 4.3 of the spec has it
  remove the lines that assert team structure: rosters ("your team includes ..."),
  membership claims ("you are in team X with ...") and composition statements ("Team X
  comprises/with ..."), and keep every other line as it is. The patterns are read without
  regard to case; X is one word.
\<close>

fun team_composition :: "string \<Rightarrow> bool" where
  "team_composition [] = False"
| "team_composition (c # cs) =
     ((case drop_prefix ''team '' (c # cs) of
         None \<Rightarrow> False
       | Some r \<Rightarrow>
           takeWhile (\<lambda>x. x \<noteq> CHR '' '') r \<noteq> [] \<and>
           (starts_with (dropWhile (\<lambda>x. x \<noteq> CHR '' '') r) '' comprises'' \<or>
            starts_with (dropWhile (\<lambda>x. x \<noteq> CHR '' '') r) '' with ''))
      \<or> team_composition cs)"

fun team_membership :: "string \<Rightarrow> bool" where
  "team_membership [] = False"
| "team_membership (c # cs) =
     ((case drop_prefix ''you are in team '' (c # cs) of
         None \<Rightarrow> False
       | Some r \<Rightarrow> includes_str r '' with '')
      \<or> team_membership cs)"

definition is_stale_team_line :: "string \<Rightarrow> bool" where
  "is_stale_team_line line =
     (includes_str (lower line) ''your team includes'' \<or>
      team_membership (lower line) \<or>
      team_composition (lower line))"

definition filterStaleTeamReferences :: "string \<Rightarrow> string" where
  "filterStaleTeamReferences text_in =
     join nl (filter (\<lambda>line. \<not> is_stale_team_line line) (split_on CHR 0x0A text_in))"

section \<open>The mention router\<close>

text \<open>
  Modelled from the spec: \<^verbatim>\<open>extractTeammateMentions\<close> of the routing module, which the
  tests import and which is not among the sources. Section 4.1 of the spec gives the
  algorithm: bracket tags \<^verbatim>\<open>[@id(,id)*: message]\<close> are scanned for; if there is one, only
  the tags produce mentions, each for the recognised teammates among its ids, with the
  text preceding the tag prepended to its directed clause; otherwise bare \<^verbatim>\<open>@token\<close>
  occurrences are resolved by id and then by display name, and each produces a mention
  carrying the whole text. Duplicates of a teammate are dropped, the first kept.
\<close>

record directed_mention =
  dm_teammateId :: string
  dm_message :: string
  dm_sourceAgentId :: string

record bracket_tag =
  tag_context :: string
  tag_ids :: "string list"
  tag_clause :: string
  tag_length :: nat

text \<open>
  A well-formed tag at the start of a text: \<^verbatim>\<open>[@\<close>, a non-empty id list without white
  space up to a colon, and a clause up to the closing bracket.
\<close>

definition tag_at :: "string \<Rightarrow> (string list \<times> string \<times> nat) option" where
  "tag_at s =
     (case drop_prefix ''[@'' s of
        None \<Rightarrow> None
      | Some r \<Rightarrow>
          (let idlist = takeWhile (\<lambda>c. c \<noteq> CHR '':'' \<and> c \<noteq> CHR '']'' \<and> \<not> js_ws c) r;
               after_ids = drop (length idlist) r;
               ids = filter (\<lambda>i. i \<noteq> []) (split_on CHR '','' idlist)
           in case after_ids of
                [] \<Rightarrow> None
              | c # r' \<Rightarrow>
                  if c \<noteq> CHR '':'' \<or> ids = [] then None
                  else (let clause = takeWhile (\<lambda>x. x \<noteq> CHR '']'') r'
                        in if length clause < length r'
                           then Some (ids, trim clause, 2 + length idlist + 1 + length clause + 1)
                           else None)))"

text \<open>
  The tags of a text, left to right and not overlapping: \<open>skip\<close> counts the characters of
  the tag being passed over, \<open>preceding\<close> is the text read so far.
\<close>

fun scan_tags :: "nat \<Rightarrow> string \<Rightarrow> string \<Rightarrow> bracket_tag list" where
  "scan_tags skip preceding [] = []"
| "scan_tags skip preceding (c # cs) =
     (if 0 < skip then scan_tags (skip - 1) (preceding @ [c]) cs
      else (case tag_at (c # cs) of
              None \<Rightarrow> scan_tags 0 (preceding @ [c]) cs
            | Some (ids, clause, n) \<Rightarrow>
                \<lparr>tag_context = preceding, tag_ids = ids, tag_clause = clause, tag_length = n\<rparr> #
                scan_tags (n - 1) (preceding @ [c]) cs))"

definition bracket_tags :: "string \<Rightarrow> bracket_tag list" where
  "bracket_tags response = scan_tags 0 [] response"

text \<open>A recognised teammate: not the agent itself, a member of the team, and a known agent.\<close>

definition isTeammate ::
  "string \<Rightarrow> string \<Rightarrow> string \<Rightarrow> (string \<times> team_config) list \<Rightarrow> (string \<times> agent_config) list \<Rightarrow> bool"
  where
  "isTeammate candidate self teamId teams agents =
     (candidate \<noteq> self \<and>
      (case map_of teams teamId of
         None \<Rightarrow> False
       | Some team \<Rightarrow> candidate \<in> set (tc_agents team)) \<and>
      map_of agents candidate \<noteq> None)"

fun first_per_teammate :: "string list \<Rightarrow> directed_mention list \<Rightarrow> directed_mention list" where
  "first_per_teammate seen [] = []"
| "first_per_teammate seen (m # ms) =
     (if dm_teammateId m \<in> set seen then first_per_teammate seen ms
      else m # first_per_teammate (dm_teammateId m # seen) ms)"

definition tag_mentions ::
  "string \<Rightarrow> string \<Rightarrow> (string \<times> team_config) list \<Rightarrow> (string \<times> agent_config) list \<Rightarrow>
   bracket_tag \<Rightarrow> directed_mention list" where
  "tag_mentions self teamId teams agents tag =
     map (\<lambda>i. \<lparr>dm_teammateId = i, dm_message = tag_context tag @ tag_clause tag,
               dm_sourceAgentId = self\<rparr>)
       (filter (\<lambda>i. isTeammate i self teamId teams agents) (tag_ids tag))"

definition bracket_mentions ::
  "string \<Rightarrow> string \<Rightarrow> string \<Rightarrow> (string \<times> team_config) list \<Rightarrow> (string \<times> agent_config) list \<Rightarrow>
   directed_mention list" where
  "bracket_mentions response self teamId teams agents =
     first_per_teammate []
       (concat (map (tag_mentions self teamId teams agents) (bracket_tags response)))"

text \<open>Bare mentions: the tokens after an \<^verbatim>\<open>@\<close>, each a maximal run of identifier characters.\<close>

definition ident_char :: "char \<Rightarrow> bool" where
  "ident_char c =
     (let n = (of_char c :: nat)
      in (48 \<le> n \<and> n \<le> 57) \<or> (65 \<le> n \<and> n \<le> 90) \<or> (97 \<le> n \<and> n \<le> 122) \<or>
         c = CHR ''_'' \<or> c = CHR ''-'')"

fun bare_tokens :: "string \<Rightarrow> string list" where
  "bare_tokens [] = []"
| "bare_tokens (c # cs) =
     (if c = CHR ''@'' \<and> takeWhile ident_char cs \<noteq> []
      then takeWhile ident_char cs # bare_tokens cs
      else bare_tokens cs)"

definition resolve_token ::
  "string \<Rightarrow> string \<Rightarrow> string \<Rightarrow> (string \<times> team_config) list \<Rightarrow> (string \<times> agent_config) list \<Rightarrow>
   string option" where
  "resolve_token token self teamId teams agents =
     (if map_of agents token \<noteq> None
      then (if isTeammate token self teamId teams agents then Some token else None)
      else (case find (\<lambda>(i, agent). lower (ac_name agent) = lower token) agents of
              None \<Rightarrow> None
            | Some (i, agent) \<Rightarrow>
                if isTeammate i self teamId teams agents then Some i else None))"

definition bare_mentions ::
  "string \<Rightarrow> string \<Rightarrow> string \<Rightarrow> (string \<times> team_config) list \<Rightarrow> (string \<times> agent_config) list \<Rightarrow>
   directed_mention list" where
  "bare_mentions response self teamId teams agents =
     first_per_teammate []
       (map (\<lambda>i. \<lparr>dm_teammateId = i, dm_message = response, dm_sourceAgentId = self\<rparr>)
          (List.map_filter (\<lambda>token. resolve_token token self teamId teams agents)
             (bare_tokens response)))"

definition extractTeammateMentions ::
  "string \<Rightarrow> string \<Rightarrow> string \<Rightarrow> (string \<times> team_config) list \<Rightarrow> (string \<times> agent_config) list \<Rightarrow>
   directed_mention list" where
  "extractTeammateMentions response self teamId teams agents =
     (if bracket_tags response \<noteq> []
      then bracket_mentions response self teamId teams agents
      else bare_mentions response self teamId teams agents)"

section \<open>Notions used to state the properties\<close>

subsection \<open>Events of a subprocess's output\<close>

text \<open>
  The lines of an output that parse, as the values they parse to, in order; and among
  them the events each backend's condition selects.
\<close>

definition parses :: "parser \<Rightarrow> string \<Rightarrow> bool" where
  "parses p line = (case p line of Inl m \<Rightarrow> False | Inr j \<Rightarrow> True)"

definition parsed_events :: "parser \<Rightarrow> string list \<Rightarrow> json list" where
  "parsed_events p ls =
     List.map_filter (\<lambda>line. case p line of Inl m \<Rightarrow> None | Inr j \<Rightarrow> Some j) ls"

definition output_lines :: "string \<Rightarrow> string list" where
  "output_lines out = split_on CHR 0x0A (trim out)"

text \<open>An event \<^verbatim>\<open>{type: "item.completed", item: {type: "agent_message", ...}}\<close> and its text.\<close>

definition codex_matches :: "json \<Rightarrow> bool" where
  "codex_matches j =
     (opt_prop (Some j) ''type'' = Some (JStr ''item.completed'') \<and>
      opt_prop (opt_prop (Some j) ''item'') ''type'' = Some (JStr ''agent_message''))"

definition codex_text :: "json \<Rightarrow> json option" where
  "codex_text j = opt_prop (opt_prop (Some j) ''item'') ''text''"

definition codex_events :: "parser \<Rightarrow> string list \<Rightarrow> json list" where
  "codex_events p ls = filter codex_matches (parsed_events p ls)"

text \<open>An event \<^verbatim>\<open>{type: "text", part: {text: ...}}\<close> with a truthy text, and its text.\<close>

definition opencode_matches :: "json \<Rightarrow> bool" where
  "opencode_matches j =
     (opt_prop (Some j) ''type'' = Some (JStr ''text'') \<and>
      truthy (opt_prop (opt_prop (Some j) ''part'') ''text''))"

definition opencode_text :: "json \<Rightarrow> json option" where
  "opencode_text j = opt_prop (opt_prop (Some j) ''part'') ''text''"

definition opencode_events :: "parser \<Rightarrow> string list \<Rightarrow> json list" where
  "opencode_events p ls = filter opencode_matches (parsed_events p ls)"

text \<open>
  The events \<^verbatim>\<open>{type: "text", ...}\<close> of an output, whatever text they carry, if any.
\<close>

definition opencode_type_text :: "json \<Rightarrow> bool" where
  "opencode_type_text j = (opt_prop (Some j) ''type'' = Some (JStr ''text''))"

definition opencode_text_events :: "parser \<Rightarrow> string list \<Rightarrow> json list" where
  "opencode_text_events p ls = filter opencode_type_text (parsed_events p ls)"

text \<open>
  The text of the last event of a list, or \<^verbatim>\<open>undefined\<close> for none; and the response
  the sentence "the text of the last matching line, the fallback notice if no line
  matches" describes.
\<close>

definition last_text :: "(json \<Rightarrow> json option) \<Rightarrow> json list \<Rightarrow> json option" where
  "last_text text_of evs = (case rev evs of [] \<Rightarrow> None | j # js \<Rightarrow> text_of j)"

definition claimed_codex_response :: "parser \<Rightarrow> string \<Rightarrow> json option" where
  "claimed_codex_response p out =
     (case rev (codex_events p (output_lines out)) of
        [] \<Rightarrow> Some (JStr codex_fallback)
      | j # js \<Rightarrow> codex_text j)"

subsection \<open>Example outputs\<close>

definition ex_empty_text_line :: string where
  "ex_empty_text_line =
     ''{\"type\":\"item.completed\",\"item\":{\"type\":\"agent_message\",\"text\":\"\"}}''"

definition ex_empty_text_event :: json where
  "ex_empty_text_event =
     JObj [(''type'', JStr ''item.completed''),
           (''item'', JObj [(''type'', JStr ''agent_message''), (''text'', JStr [])])]"

definition ex_hello_line :: string where
  "ex_hello_line =
     ''{\"type\":\"item.completed\",\"item\":{\"type\":\"agent_message\",\"text\":\"Hello\"}}''"

definition ex_hello_event :: json where
  "ex_hello_event =
     JObj [(''type'', JStr ''item.completed''),
           (''item'', JObj [(''type'', JStr ''agent_message''), (''text'', JStr ''Hello'')])]"

definition ex_text_line :: string where
  "ex_text_line = ''{\"type\":\"text\",\"part\":{\"text\":\"Hi\"}}''"

definition ex_text_event :: json where
  "ex_text_event = JObj [(''type'', JStr ''text''), (''part'', JObj [(''text'', JStr ''Hi'')])]"

definition ex_empty_part_line :: string where
  "ex_empty_part_line = ''{\"type\":\"text\",\"part\":{\"text\":\"\"}}''"

definition ex_empty_part_event :: json where
  "ex_empty_part_event = JObj [(''type'', JStr ''text''), (''part'', JObj [(''text'', JStr [])])]"

definition ex_parser :: parser where
  "ex_parser =
     parser_of_graph
       [(ex_empty_text_line, ex_empty_text_event),
        (ex_hello_line, ex_hello_event),
        (ex_text_line, ex_text_event),
        (ex_empty_part_line, ex_empty_part_event)]"

definition ex_out_hello :: string where
  "ex_out_hello = ''not json'' @ nl @ ex_hello_line @ nl"

definition ex_out_hello_then_empty :: string where
  "ex_out_hello_then_empty = ''not json'' @ nl @ ex_hello_line @ nl @ ex_empty_text_line @ nl"

definition ex_out_hi_then_empty :: string where
  "ex_out_hi_then_empty = ex_text_line @ nl @ ex_empty_part_line @ nl"

subsection \<open>The stream of the native backend\<close>

text \<open>
  An item at which the loop is left with an error: an exception of the generator, or a
  result event whose subtype is not \<^verbatim>\<open>success\<close>. The part of a stream the loop gets
  through ends with the first such item. A stream is quiet when it has none.
\<close>

fun throwing :: "stream_item \<Rightarrow> bool" where
  "throwing (Yield msg) = (msg_type msg = ''result'' \<and> msg_subtype msg \<noteq> Some ''success'')"
| "throwing (Raise e) = True"
| "throwing TimerFires = False"

fun consumed :: "stream_item list \<Rightarrow> stream_item list" where
  "consumed [] = []"
| "consumed (i # rest) = (if throwing i then [i] else i # consumed rest)"

definition quiet :: "stream_item list \<Rightarrow> bool" where
  "quiet items = list_all (\<lambda>i. \<not> throwing i) items"

text \<open>The assistant and user messages a stream yields, in order.\<close>

fun pushed :: "stream_item list \<Rightarrow> sdk_msg list" where
  "pushed [] = []"
| "pushed (Yield msg # rest) =
     (if msg_type msg = ''assistant'' \<or> msg_type msg = ''user'' then msg # pushed rest
      else pushed rest)"
| "pushed (Raise e # rest) = pushed rest"
| "pushed (TimerFires # rest) = pushed rest"

text \<open>The outbound prompt of the native branch, given the loaded observer state.\<close>

definition native_prompt :: "agent_config \<Rightarrow> bool \<Rightarrow> json \<Rightarrow> string \<Rightarrow> string" where
  "native_prompt agent shouldReset state message =
     (if ac_observer_enabled agent \<and> shouldReset \<and>
         truthy (opt_prop (Some state) ''observations_text'')
      then clearance_notice @ message else message)"

text \<open>The prompts of the SDK calls in a trace, and the log lines of a trace.\<close>

fun prompts :: "effect list \<Rightarrow> string list" where
  "prompts [] = []"
| "prompts (Query prompt options # rest) = prompt # prompts rest"
| "prompts (e # rest) = prompts rest"

fun is_log :: "effect \<Rightarrow> bool" where
  "is_log (Log l s) = True"
| "is_log e = False"

text \<open>
  The message the sentence "the event's error list joined together, or a generic message
  naming the subtype when no error list is present" describes.
\<close>

definition claimed_sdk_error_message :: "sdk_msg \<Rightarrow> string" where
  "claimed_sdk_error_message msg =
     (case msg_errors msg of
        None \<Rightarrow> generic_sdk_error msg
      | Some es \<Rightarrow> join ''; '' es)"

subsection \<open>Example invocations\<close>

definition ex_agent :: agent_config where
  "ex_agent =
     \<lparr>ac_name = ''Alice'', ac_provider = ''anthropic'', ac_model = ''sonnet'',
      ac_working_directory = [], ac_observer_enabled = False\<rparr>"

definition ex_observed_agent :: agent_config where
  "ex_observed_agent =
     \<lparr>ac_name = ''Alice'', ac_provider = ''anthropic'', ac_model = ''sonnet'',
      ac_working_directory = [], ac_observer_enabled = True\<rparr>"

definition ex_state_file :: string where
  "ex_state_file = ''/ws/agent-a/.switchboard/agent-a/observer_state.json''"

definition ex_state_raw :: string where
  "ex_state_raw = ''{\"observations_text\":\"* HIGH (10:00) User prefers Python\"}''"

definition ex_state :: json where
  "ex_state = JObj [(''observations_text'', JStr ''* HIGH (10:00) User prefers Python'')]"

definition ex_state_parser :: parser where
  "ex_state_parser = parser_of_graph [(ex_state_raw, ex_state)]"

definition ex_fs :: filesystem where
  "ex_fs = [ex_state_file \<mapsto> Readable ex_state_raw]"

definition ex_broken_fs :: filesystem where
  "ex_broken_fs = [ex_state_file \<mapsto> Readable ''{not json'']"

definition ex_env :: "filesystem \<Rightarrow> stream_item list \<Rightarrow> environment" where
  "ex_env fs items =
     \<lparr>env_parse = ex_state_parser,
      env_fs = fs,
      env_spawn = (\<lambda>command args cwd. SpawnFailed ''spawn ENOENT''),
      env_sdk = (\<lambda>prompt options. items),
      env_uuid = ''7b0c5a52-0000-4000-8000-000000000001'',
      env_resolveClaudeModel = (\<lambda>m. m),
      env_resolveCodexModel = (\<lambda>m. m),
      env_resolveOpenCodeModel = (\<lambda>m. m)\<rparr>"

definition ex_assistant_event :: sdk_msg where
  "ex_assistant_event =
     \<lparr>msg_type = ''assistant'', msg_subtype = None, msg_session_id = Some ''S0'',
      msg_result = None, msg_errors = None,
      msg_content = Some (JArr [JObj [(''type'', JStr ''text''), (''text'', JStr ''Working.'')]]),
      msg_isReplay = False\<rparr>"

definition ex_success_event :: sdk_msg where
  "ex_success_event =
     \<lparr>msg_type = ''result'', msg_subtype = Some ''success'', msg_session_id = Some ''S1'',
      msg_result = Some ''Done.'', msg_errors = None, msg_content = None,
      msg_isReplay = False\<rparr>"

definition ex_error_event :: sdk_msg where
  "ex_error_event =
     \<lparr>msg_type = ''result'', msg_subtype = Some ''error_during_execution'',
      msg_session_id = Some ''S1'', msg_result = None,
      msg_errors = Some [''tool failed'', ''gave up''], msg_content = None,
      msg_isReplay = False\<rparr>"

definition ex_max_turns_event :: sdk_msg where
  "ex_max_turns_event =
     \<lparr>msg_type = ''result'', msg_subtype = Some ''error_max_turns'',
      msg_session_id = Some ''S1'', msg_result = None, msg_errors = Some [],
      msg_content = None, msg_isReplay = False\<rparr>"

subsection \<open>The observer state\<close>

definition observer_state_file :: "string \<Rightarrow> string \<Rightarrow> string" where
  "observer_state_file agentId workspacePath =
     path_join [getObserverStateDir agentId workspacePath, ''observer_state.json'']"

definition route_state_file :: "string \<Rightarrow> string" where
  "route_state_file agentDir = path_join [agentDir, ''.switchboard'', ''observer_state.json'']"

text \<open>
  The sentence "all fields are present with values of their declared types": three
  strings, three numbers, and a timestamp that is a string or \<^verbatim>\<open>null\<close>.
\<close>

fun is_str :: "json option \<Rightarrow> bool" where
  "is_str (Some (JStr s)) = True"
| "is_str v = False"

fun is_num :: "json option \<Rightarrow> bool" where
  "is_num (Some (JNum n)) = True"
| "is_num v = False"

definition all_fields_present :: "json \<Rightarrow> bool" where
  "all_fields_present state =
     (is_str (opt_prop (Some state) ''observations_text'') \<and>
      is_num (opt_prop (Some state) ''total_tokens_observed'') \<and>
      is_num (opt_prop (Some state) ''observation_count'') \<and>
      is_num (opt_prop (Some state) ''reflection_count'') \<and>
      (is_str (opt_prop (Some state) ''last_observed_at'') \<or>
       opt_prop (Some state) ''last_observed_at'' = Some JNull) \<and>
      is_str (opt_prop (Some state) ''current_task'') \<and>
      is_str (opt_prop (Some state) ''suggested_response''))"

definition ex_state_block :: string where
  "ex_state_block =
     join nl
       [''<observer-context>'',
        ''<observations>* HIGH (10:00) User prefers Python</observations>'',
        ''</observer-context>'',
        [],
        ''Reference specific details from these observations when relevant.'',
        ''Prefer the MOST RECENT information when observations conflict.'']"

subsection \<open>Example recordings\<close>








subsection \<open>The fixtures of the tests\<close>

definition test_agents :: "(string \<times> agent_config) list" where
  "test_agents =
     [(''agent-a'', \<lparr>ac_name = ''Alice'', ac_provider = ''anthropic'',
                     ac_model = ''claude-sonnet-4-20250514'', ac_working_directory = [],
                     ac_observer_enabled = False\<rparr>),
      (''agent-b'', \<lparr>ac_name = ''Bob'', ac_provider = ''anthropic'',
                     ac_model = ''claude-sonnet-4-20250514'', ac_working_directory = [],
                     ac_observer_enabled = False\<rparr>),
      (''agent-c'', \<lparr>ac_name = ''Charlie'', ac_provider = ''anthropic'',
                     ac_model = ''claude-sonnet-4-20250514'', ac_working_directory = [],
                     ac_observer_enabled = False\<rparr>)]"

definition test_teams :: "(string \<times> team_config) list" where
  "test_teams =
     [(''test-team'', \<lparr>tc_name = ''Test Team'',
                       tc_agents = [''agent-a'', ''agent-b'', ''agent-c''],
                       tc_leader_agent = ''agent-a''\<rparr>)]"

definition test_bracket_and_bare :: string where
  "test_bracket_and_bare = ''[@agent-b: Review this.] Also cc @agent-c for awareness.''"

definition test_team_observations :: string where
  "test_team_observations =
     ''* HIGH (10:00) User prefers Python'' @ nl @
     ''* MEDIUM (10:05) Your team includes @old-agent and @stale-agent'' @ nl @
     ''* HIGH (10:10) Project uses FastAPI''"



subsection \<open>Example subprocess invocations\<close>

definition ex_codex_agent :: agent_config where
  "ex_codex_agent =
     \<lparr>ac_name = ''Cody'', ac_provider = ''openai'', ac_model = ''gpt-5'',
      ac_working_directory = [], ac_observer_enabled = False\<rparr>"

definition ex_opencode_agent :: agent_config where
  "ex_opencode_agent =
     \<lparr>ac_name = ''Odie'', ac_provider = ''opencode'', ac_model = ''sonnet'',
      ac_working_directory = [], ac_observer_enabled = False\<rparr>"

text \<open>An environment whose subprocess closes with code 0 and the given output.\<close>

definition ex_cli_env :: "string \<Rightarrow> environment" where
  "ex_cli_env out =
     \<lparr>env_parse = ex_parser,
      env_fs = Map.empty,
      env_spawn = (\<lambda>command args cwd. Closed (Some 0) out []),
      env_sdk = (\<lambda>prompt options. []),
      env_uuid = ''7b0c5a52-0000-4000-8000-000000000001'',
      env_resolveClaudeModel = (\<lambda>m. m),
      env_resolveCodexModel = (\<lambda>m. m),
      env_resolveOpenCodeModel = (\<lambda>m. m)\<rparr>"

section \<open>The subprocess backends' scan of the output\<close>

lemma get_prop_opt: "j \<noteq> JNull \<Longrightarrow> get_prop j k = Inr (opt_prop (Some j) k)"
  by (cases j) simp_all

lemma codex_step_eq:
  "codex_step p r line =
     (case p line of
        Inl m \<Rightarrow> r
      | Inr j \<Rightarrow> if codex_matches j then codex_text j else r)"
proof (cases "p line")
  case (Inl m)
  then show ?thesis by (simp add: codex_step_def codex_try_def JSON_parse_def)
next
  case (Inr j)
  show ?thesis
  proof (cases "j = JNull")
    case True
    with Inr show ?thesis
      by (simp add: codex_step_def codex_try_def JSON_parse_def codex_matches_def)
  next
    case False
    with Inr show ?thesis
      by (simp add: codex_step_def codex_try_def JSON_parse_def codex_matches_def
          codex_text_def get_prop_opt)
  qed
qed

lemma opencode_step_eq:
  "opencode_step p r line =
     (case p line of
        Inl m \<Rightarrow> r
      | Inr j \<Rightarrow> if opencode_matches j then opencode_text j else r)"
proof (cases "p line")
  case (Inl m)
  then show ?thesis by (simp add: opencode_step_def opencode_try_def JSON_parse_def)
next
  case (Inr j)
  show ?thesis
  proof (cases "j = JNull")
    case True
    with Inr show ?thesis
      by (simp add: opencode_step_def opencode_try_def JSON_parse_def opencode_matches_def)
  next
    case False
    with Inr show ?thesis
      by (simp add: opencode_step_def opencode_try_def JSON_parse_def opencode_matches_def
          opencode_text_def get_prop_opt)
  qed
qed

lemma parsed_events_snoc:
  "parsed_events p (ls @ [l]) =
     parsed_events p ls @ (case p l of Inl m \<Rightarrow> [] | Inr j \<Rightarrow> [j])"
  by (simp add: parsed_events_def map_filter_def split: sum.splits)

lemma parsed_events_Nil: "parsed_events p [] = []"
  by (simp add: parsed_events_def map_filter_def)

lemma codex_fold:
  "foldl (codex_step p) r ls =
     (case rev (codex_events p ls) of [] \<Rightarrow> r | j # js \<Rightarrow> codex_text j)"
proof (induction ls rule: rev_induct)
  case Nil
  then show ?case by (simp add: codex_events_def parsed_events_Nil)
next
  case (snoc l ls)
  then show ?case
    by (simp add: codex_step_eq codex_events_def parsed_events_snoc
        split: sum.splits list.splits)
qed

lemma opencode_fold:
  "foldl (opencode_step p) r ls =
     (case rev (opencode_events p ls) of [] \<Rightarrow> r | j # js \<Rightarrow> opencode_text j)"
proof (induction ls rule: rev_induct)
  case Nil
  then show ?case by (simp add: opencode_events_def parsed_events_Nil)
next
  case (snoc l ls)
  then show ?case
    by (simp add: opencode_step_eq opencode_events_def parsed_events_snoc
        split: sum.splits list.splits)
qed

lemma codex_fold_skip:
  "foldl (codex_step p) r (filter (parses p) ls) = foldl (codex_step p) r ls"
  by (induction ls arbitrary: r) (simp_all add: parses_def codex_step_eq split: sum.splits)

lemma or_fallback_not_empty: "fb \<noteq> [] \<Longrightarrow> or_fallback r fb \<noteq> JStr []"
  by (cases r) (auto simp: or_fallback_def)

lemma or_fallback_falsy: "\<not> truthy r \<Longrightarrow> or_fallback r fb = JStr fb"
  by (cases r) (auto simp: or_fallback_def)

lemma codex_response_eq:
  "codex_response p out =
     or_fallback (last_text codex_text (codex_events p (output_lines out))) codex_fallback"
proof (cases "rev (codex_events p (output_lines out))")
  case Nil
  then show ?thesis
    by (simp add: codex_response_def codex_fold last_text_def output_lines_def or_fallback_def)
next
  case (Cons j js)
  then show ?thesis
    by (simp add: codex_response_def codex_fold last_text_def output_lines_def)
qed

lemma opencode_response_eq:
  "opencode_response p out =
     or_fallback (last_text opencode_text (opencode_events p (output_lines out)))
       opencode_fallback"
proof (cases "rev (opencode_events p (output_lines out))")
  case Nil
  then show ?thesis
    by (simp add: opencode_response_def opencode_fold last_text_def output_lines_def
        or_fallback_def)
next
  case (Cons j js)
  then show ?thesis
    by (simp add: opencode_response_def opencode_fold last_text_def output_lines_def)
qed

lemma ex_lines:
  "output_lines ex_out_hello_then_empty = [''not json'', ex_hello_line, ex_empty_text_line]"
  "output_lines ex_out_hello = [''not json'', ex_hello_line]"
  "output_lines ex_empty_text_line = [ex_empty_text_line]"
  "output_lines ex_text_line = [ex_text_line]"
  by (simp_all add: output_lines_def trim_def js_ws_def nl_def ex_out_hello_then_empty_def
      ex_out_hello_def ex_hello_line_def ex_empty_text_line_def ex_text_line_def)

lemma ex_parser_simps:
  "ex_parser ''not json'' = Inl ''Unexpected token''"
  "ex_parser ex_empty_text_line = Inr ex_empty_text_event"
  "ex_parser ex_hello_line = Inr ex_hello_event"
  "ex_parser ex_text_line = Inr ex_text_event"
  by (simp_all add: ex_parser_def parser_of_graph_def ex_empty_text_line_def ex_hello_line_def
      ex_text_line_def ex_empty_part_line_def)

lemma ex_matches:
  "codex_matches ex_empty_text_event" "codex_matches ex_hello_event"
  "\<not> codex_matches ex_text_event"
  "codex_text ex_empty_text_event = Some (JStr [])"
  "codex_text ex_hello_event = Some (JStr ''Hello'')"
  by (simp_all add: codex_matches_def codex_text_def ex_empty_text_event_def ex_hello_event_def
      ex_text_event_def)

lemma invoke_codex_closed:
  "invoke_codex p (Closed (Some 0) out err) =
     Inr (or_fallback (last_text codex_text (codex_events p (output_lines out))) codex_fallback)"
  by (simp add: invoke_codex_def codex_response_eq)

lemma invoke_opencode_closed:
  "invoke_opencode p (Closed (Some 0) out err) =
     Inr (or_fallback (last_text opencode_text (opencode_events p (output_lines out)))
            opencode_fallback)"
  by (simp add: invoke_opencode_def opencode_response_eq)

lemma last_text_last: "evs \<noteq> [] \<Longrightarrow> last_text f evs = f (last evs)"
  by (cases evs rule: rev_cases) (simp_all add: last_text_def)

lemma last_text_Nil: "last_text f [] = None"
  by (simp add: last_text_def)

lemma fallbacks_not_empty: "codex_fallback \<noteq> []" "opencode_fallback \<noteq> []"
  by (simp_all add: codex_fallback_def opencode_fallback_def)

lemma invokeAgent_openai:
  assumes "ac_provider agent = ''openai''"
  shows "fst (invokeAgent env agent a message w sr teams) =
           map_sum id Plain
             (invoke_codex (env_parse env)
                (env_spawn env ''codex''
                   (codex_args (env_resolveCodexModel env (ac_model agent)) sr message)
                   (resolve_working_dir agent w a)))"
  using assms by (simp add: invokeAgent_def provider_of_def Let_def)

lemma invokeAgent_opencode:
  assumes "ac_provider agent = ''opencode''"
  shows "fst (invokeAgent env agent a message w sr teams) =
           map_sum id Plain
             (invoke_opencode (env_parse env)
                (env_spawn env ''opencode''
                   (opencode_args (env_resolveOpenCodeModel env (ac_model agent)) sr message)
                   (resolve_working_dir agent w a)))"
  using assms by (simp add: invokeAgent_def provider_of_def Let_def)

lemma invoke_codex_not_empty: "invoke_codex p outcome \<noteq> Inr (JStr [])"
  by (cases "runCommand outcome")
     (simp_all add: invoke_codex_def codex_response_eq or_fallback_not_empty fallbacks_not_empty)

lemma invoke_opencode_not_empty: "invoke_opencode p outcome \<noteq> Inr (JStr [])"
  by (cases "runCommand outcome")
     (simp_all add: invoke_opencode_def opencode_response_eq or_fallback_not_empty
        fallbacks_not_empty)

lemma map_sum_Plain_not_empty: "r \<noteq> Inr (JStr []) \<Longrightarrow> map_sum id Plain r \<noteq> Inr (Plain (JStr []))"
  by (cases r) auto

text \<open>
  C4 (as amended). In an invocation of a Codex agent whose subprocess closes with code 0:
  a line of the output that does not parse leaves the response as it was and fails
  nothing; when no parsed line matches, the fallback notice is returned; when the last
  matching line has a truthy text (a non-empty string), that text is returned; when its
  text is empty, missing or otherwise falsy, the fallback notice is returned.
\<close>

theorem C4_codex_last_match_or_fallback:
  assumes "ac_provider agent = ''openai''"
    and "env_spawn env = (\<lambda>command args cwd. Closed (Some 0) out err)"
  shows
   "(\<not> parses (env_parse env) line \<longrightarrow> codex_step (env_parse env) r line = r) \<and>
    (codex_events (env_parse env) (output_lines out) = [] \<longrightarrow>
       fst (invokeAgent env agent a message w sr teams) = Inr (Plain (JStr codex_fallback))) \<and>
    (codex_events (env_parse env) (output_lines out) \<noteq> [] \<and>
     codex_text (last (codex_events (env_parse env) (output_lines out))) = Some v \<and>
     truthy (Some v) \<longrightarrow>
       fst (invokeAgent env agent a message w sr teams) = Inr (Plain v)) \<and>
    (codex_events (env_parse env) (output_lines out) \<noteq> [] \<and>
     \<not> truthy (codex_text (last (codex_events (env_parse env) (output_lines out)))) \<longrightarrow>
       fst (invokeAgent env agent a message w sr teams) = Inr (Plain (JStr codex_fallback)))"
proof -
  have inv: "fst (invokeAgent env agent a message w sr teams) =
      Inr (Plain (or_fallback
        (last_text codex_text (codex_events (env_parse env) (output_lines out)))
        codex_fallback))"
    by (simp add: invokeAgent_openai [OF assms(1)] assms(2) invoke_codex_closed)
  show ?thesis
  proof (intro conjI impI)
    assume "\<not> parses (env_parse env) line"
    then show "codex_step (env_parse env) r line = r"
      by (simp add: codex_step_eq parses_def split: sum.splits)
  next
    assume "codex_events (env_parse env) (output_lines out) = []"
    then show "fst (invokeAgent env agent a message w sr teams) =
        Inr (Plain (JStr codex_fallback))"
      by (simp add: inv last_text_Nil or_fallback_def)
  next
    assume "codex_events (env_parse env) (output_lines out) \<noteq> [] \<and>
      codex_text (last (codex_events (env_parse env) (output_lines out))) = Some v \<and>
      truthy (Some v)"
    then show "fst (invokeAgent env agent a message w sr teams) = Inr (Plain v)"
      by (simp add: inv last_text_last or_fallback_def)
  next
    assume "codex_events (env_parse env) (output_lines out) \<noteq> [] \<and>
      \<not> truthy (codex_text (last (codex_events (env_parse env) (output_lines out))))"
    then show "fst (invokeAgent env agent a message w sr teams) =
        Inr (Plain (JStr codex_fallback))"
      by (simp add: inv last_text_last or_fallback_falsy)
  qed
qed

lemma ex_codex_events:
  "codex_events ex_parser [''not json'', ex_hello_line, ex_empty_text_line] =
     [ex_hello_event, ex_empty_text_event]"
  "codex_events ex_parser [''not json'', ex_hello_line] = [ex_hello_event]"
  "codex_events ex_parser [ex_empty_text_line] = [ex_empty_text_event]"
  "codex_events ex_parser [ex_text_line] = []"
  by (simp_all add: codex_events_def parsed_events_def map_filter_def ex_parser_simps ex_matches)

lemma ex_cli_fields:
  "env_parse (ex_cli_env out) = ex_parser"
  "env_spawn (ex_cli_env out) = (\<lambda>command args cwd. Closed (Some 0) out [])"
  "ac_provider ex_codex_agent = ''openai''"
  "ac_provider ex_opencode_agent = ''opencode''"
  by (simp_all add: ex_cli_env_def ex_codex_agent_def ex_opencode_agent_def)

theorem C4_codex_witness:
  "codex_step ex_parser (Some (JStr ''kept'')) ''not json'' = Some (JStr ''kept'') \<and>
   fst (invokeAgent (ex_cli_env ex_text_line) ex_codex_agent ''agent-x'' ''hello'' ''/ws''
          False []) =
     Inr (Plain (JStr codex_fallback)) \<and>
   fst (invokeAgent (ex_cli_env ex_out_hello) ex_codex_agent ''agent-x'' ''hello'' ''/ws''
          False []) =
     Inr (Plain (JStr ''Hello''))"
  using C4_codex_last_match_or_fallback
          [where agent = ex_codex_agent and env = "ex_cli_env ex_text_line"
             and out = ex_text_line and err = "[]" and line = "''not json''"
             and r = "Some (JStr ''kept'')" and v = "JStr ''Hello''" and a = "''agent-x''"
             and message = "''hello''" and w = "''/ws''" and sr = False and teams = "[]"]
        C4_codex_last_match_or_fallback
          [where agent = ex_codex_agent and env = "ex_cli_env ex_out_hello"
             and out = ex_out_hello and err = "[]" and line = "''not json''"
             and r = "Some (JStr ''kept'')" and v = "JStr ''Hello''" and a = "''agent-x''"
             and message = "''hello''" and w = "''/ws''" and sr = False and teams = "[]"]
  by (simp add: ex_cli_fields ex_lines ex_codex_events ex_matches parses_def ex_parser_simps)

text \<open>
  C4 as stated fails where the last matching line carries the empty text: the text
  of the last matching line is the empty string, and what is returned is the fallback
  notice.
\<close>

theorem C4_codex_counterexample:
  "claimed_codex_response ex_parser ex_empty_text_line = Some (JStr []) \<and>
   fst (invokeAgent (ex_cli_env ex_empty_text_line) ex_codex_agent ''agent-x'' ''hello''
          ''/ws'' False []) =
     Inr (Plain (JStr codex_fallback)) \<and>
   JStr codex_fallback \<noteq> JStr []"
  by (simp add: claimed_codex_response_def invokeAgent_openai ex_cli_fields
      invoke_codex_closed ex_lines ex_codex_events ex_matches last_text_def or_fallback_def
      fallbacks_not_empty)


subsection \<open>The fallback notices\<close>

lemma opencode_events_truthy:
  "opencode_events p ls = filter (\<lambda>j. truthy (opencode_text j)) (opencode_text_events p ls)"
proof -
  have "opencode_matches = (\<lambda>j. opencode_type_text j \<and> truthy (opencode_text j))"
    by (rule ext) (simp add: opencode_matches_def opencode_type_text_def opencode_text_def)
  then show ?thesis
    by (simp add: opencode_events_def opencode_text_events_def conj_commute)
qed

lemma ex_opencode_lines:
  "output_lines ex_empty_part_line = [ex_empty_part_line]"
  "output_lines ex_out_hi_then_empty = [ex_text_line, ex_empty_part_line]"
  by (simp_all add: output_lines_def trim_def js_ws_def nl_def ex_out_hi_then_empty_def
      ex_text_line_def ex_empty_part_line_def)

lemma ex_opencode_parser_simps: "ex_parser ex_empty_part_line = Inr ex_empty_part_event"
  by (simp add: ex_parser_def parser_of_graph_def ex_empty_text_line_def ex_hello_line_def
      ex_text_line_def ex_empty_part_line_def)

lemma ex_opencode_texts:
  "opencode_type_text ex_text_event" "opencode_type_text ex_empty_part_event"
  "opencode_text ex_text_event = Some (JStr ''Hi'')"
  "opencode_text ex_empty_part_event = Some (JStr [])"
  by (simp_all add: opencode_type_text_def opencode_text_def ex_text_event_def
      ex_empty_part_event_def)

lemma ex_opencode_text_events:
  "opencode_text_events ex_parser [ex_empty_part_line] = [ex_empty_part_event]"
  "opencode_text_events ex_parser [ex_text_line, ex_empty_part_line] =
     [ex_text_event, ex_empty_part_event]"
  by (simp_all add: opencode_text_events_def parsed_events_def map_filter_def ex_parser_simps
      ex_opencode_parser_simps ex_opencode_texts)

text \<open>
  C10 (as amended). An invocation of a Codex or an OpenCode agent never returns the empty
  string. For Codex, whose subprocess closed with code 0, the fallback notice is returned
  when no event matches and when the last matching event's text is missing or empty. For
  OpenCode, whose subprocess closed with code 0, a text event with an empty or a missing
  text leaves the response as it was: the fallback notice is returned when no text event
  carries a truthy text (none at all included), and otherwise the text of the last text
  event that carries a truthy text is returned, whatever text events follow it.
\<close>

theorem C10_subprocess_never_empty:
  assumes "ac_provider agent = ''openai'' \<or> ac_provider agent = ''opencode''"
  shows
   "fst (invokeAgent env agent a message w sr teams) \<noteq> Inr (Plain (JStr [])) \<and>
    (ac_provider agent = ''openai'' \<and>
     env_spawn env = (\<lambda>command args cwd. Closed (Some 0) out err) \<and>
     (codex_events (env_parse env) (output_lines out) = [] \<or>
      codex_text (last (codex_events (env_parse env) (output_lines out))) = None \<or>
      codex_text (last (codex_events (env_parse env) (output_lines out))) = Some (JStr [])) \<longrightarrow>
       fst (invokeAgent env agent a message w sr teams) = Inr (Plain (JStr codex_fallback))) \<and>
    (ac_provider agent = ''opencode'' \<and>
     env_spawn env = (\<lambda>command args cwd. Closed (Some 0) out err) \<and>
     (\<forall>j \<in> set (opencode_text_events (env_parse env) (output_lines out)).
        \<not> truthy (opencode_text j)) \<longrightarrow>
       fst (invokeAgent env agent a message w sr teams) = Inr (Plain (JStr opencode_fallback))) \<and>
    (ac_provider agent = ''opencode'' \<and>
     env_spawn env = (\<lambda>command args cwd. Closed (Some 0) out err) \<and>
     filter (\<lambda>j. truthy (opencode_text j))
       (opencode_text_events (env_parse env) (output_lines out)) \<noteq> [] \<and>
     opencode_text (last (filter (\<lambda>j. truthy (opencode_text j))
       (opencode_text_events (env_parse env) (output_lines out)))) = Some v \<longrightarrow>
       fst (invokeAgent env agent a message w sr teams) = Inr (Plain v))"
proof (intro conjI impI)
  show "fst (invokeAgent env agent a message w sr teams) \<noteq> Inr (Plain (JStr []))"
    using assms
  proof
    assume "ac_provider agent = ''openai''"
    then show ?thesis
      by (simp only: invokeAgent_openai)
         (rule map_sum_Plain_not_empty, rule invoke_codex_not_empty)
  next
    assume "ac_provider agent = ''opencode''"
    then show ?thesis
      by (simp only: invokeAgent_opencode)
         (rule map_sum_Plain_not_empty, rule invoke_opencode_not_empty)
  qed
next
  assume h: "ac_provider agent = ''openai'' \<and>
     env_spawn env = (\<lambda>command args cwd. Closed (Some 0) out err) \<and>
     (codex_events (env_parse env) (output_lines out) = [] \<or>
      codex_text (last (codex_events (env_parse env) (output_lines out))) = None \<or>
      codex_text (last (codex_events (env_parse env) (output_lines out))) = Some (JStr []))"
  have "\<not> truthy (last_text codex_text (codex_events (env_parse env) (output_lines out)))"
  proof (cases "codex_events (env_parse env) (output_lines out) = []")
    case True
    then show ?thesis by (simp add: last_text_Nil)
  next
    case False
    with h show ?thesis by (auto simp: last_text_last)
  qed
  then show "fst (invokeAgent env agent a message w sr teams) =
      Inr (Plain (JStr codex_fallback))"
    using h by (simp add: invokeAgent_openai invoke_codex_closed or_fallback_falsy)
next
  assume h: "ac_provider agent = ''opencode'' \<and>
     env_spawn env = (\<lambda>command args cwd. Closed (Some 0) out err) \<and>
     (\<forall>j \<in> set (opencode_text_events (env_parse env) (output_lines out)).
        \<not> truthy (opencode_text j))"
  then have "opencode_events (env_parse env) (output_lines out) = []"
    by (simp add: opencode_events_truthy filter_empty_conv)
  with h show "fst (invokeAgent env agent a message w sr teams) =
      Inr (Plain (JStr opencode_fallback))"
    by (simp add: invokeAgent_opencode invoke_opencode_closed last_text_Nil or_fallback_def)
next
  assume h: "ac_provider agent = ''opencode'' \<and>
     env_spawn env = (\<lambda>command args cwd. Closed (Some 0) out err) \<and>
     filter (\<lambda>j. truthy (opencode_text j))
       (opencode_text_events (env_parse env) (output_lines out)) \<noteq> [] \<and>
     opencode_text (last (filter (\<lambda>j. truthy (opencode_text j))
       (opencode_text_events (env_parse env) (output_lines out)))) = Some v"
  let ?evs = "opencode_events (env_parse env) (output_lines out)"
  from h have ne: "?evs \<noteq> []" and tx: "opencode_text (last ?evs) = Some v"
    by (simp_all add: opencode_events_truthy)
  from ne have "last ?evs \<in> set ?evs" by simp
  then have "truthy (opencode_text (last ?evs))"
    by (simp add: opencode_events_truthy)
  with tx have "truthy (Some v)" by simp
  with h ne tx show "fst (invokeAgent env agent a message w sr teams) = Inr (Plain v)"
    by (simp add: invokeAgent_opencode invoke_opencode_closed last_text_last or_fallback_def)
qed

theorem C10_subprocess_witness:
  "fst (invokeAgent (ex_cli_env ex_out_hello_then_empty) ex_codex_agent ''agent-x'' ''hello''
          ''/ws'' False []) =
     Inr (Plain (JStr codex_fallback)) \<and>
   fst (invokeAgent (ex_cli_env ex_empty_part_line) ex_opencode_agent ''agent-y'' ''hello''
          ''/ws'' False []) =
     Inr (Plain (JStr opencode_fallback)) \<and>
   fst (invokeAgent (ex_cli_env ex_out_hi_then_empty) ex_opencode_agent ''agent-y'' ''hello''
          ''/ws'' False []) =
     Inr (Plain (JStr ''Hi''))"
  using C10_subprocess_never_empty
          [where agent = ex_codex_agent and env = "ex_cli_env ex_out_hello_then_empty"
             and out = ex_out_hello_then_empty and err = "[]" and a = "''agent-x''"
             and message = "''hello''" and w = "''/ws''" and sr = False and teams = "[]"
             and v = "JStr ''Hi''"]
        C10_subprocess_never_empty
          [where agent = ex_opencode_agent and env = "ex_cli_env ex_empty_part_line"
             and out = ex_empty_part_line and err = "[]" and a = "''agent-y''"
             and message = "''hello''" and w = "''/ws''" and sr = False and teams = "[]"
             and v = "JStr ''Hi''"]
        C10_subprocess_never_empty
          [where agent = ex_opencode_agent and env = "ex_cli_env ex_out_hi_then_empty"
             and out = ex_out_hi_then_empty and err = "[]" and a = "''agent-y''"
             and message = "''hello''" and w = "''/ws''" and sr = False and teams = "[]"
             and v = "JStr ''Hi''"]
  by (simp add: ex_cli_fields ex_lines ex_opencode_lines ex_codex_events
      ex_opencode_text_events ex_matches ex_opencode_texts)

text \<open>
  C10 as stated fails for OpenCode where the last text event carries the empty text and an
  earlier one does not: what is returned is the earlier text, not the fallback notice.
\<close>

theorem C10_opencode_counterexample:
  "opencode_text_events ex_parser (output_lines ex_out_hi_then_empty) =
     [ex_text_event, ex_empty_part_event] \<and>
   opencode_text (last (opencode_text_events ex_parser (output_lines ex_out_hi_then_empty))) =
     Some (JStr []) \<and>
   fst (invokeAgent (ex_cli_env ex_out_hi_then_empty) ex_opencode_agent ''agent-y'' ''hello''
          ''/ws'' False []) =
     Inr (Plain (JStr ''Hi'')) \<and>
   JStr ''Hi'' \<noteq> JStr opencode_fallback"
  by (simp add: ex_opencode_lines ex_opencode_text_events ex_opencode_texts
      invokeAgent_opencode ex_cli_fields invoke_opencode_closed opencode_events_truthy
      last_text_def or_fallback_def opencode_fallback_def)

section \<open>The native streaming backend: loop, result and timer\<close>

lemma loop_body_throwing:
  "throwing (Yield msg) \<Longrightarrow> loop_body st msg = Inl (Error (sdk_error_message msg))"
  by (simp add: loop_body_def Let_def)

lemma loop_body_quiet:
  "\<not> throwing (Yield msg) \<Longrightarrow> \<exists>st'. loop_body st msg = Inr st' \<and>
     armed st' = armed st \<and> trace st' = trace st \<and>
     allMessages st' = allMessages st @ pushed [Yield msg]"
  by (auto simp: loop_body_def Let_def)

lemma loop_body_success:
  "msg_type msg = ''result'' \<Longrightarrow> msg_subtype msg = Some ''success'' \<Longrightarrow>
   \<exists>st'. loop_body st msg = Inr st' \<and> resultText st' = msg_result msg \<and>
     sessionId st' = msg_session_id msg \<and> allMessages st' = allMessages st"
  by (auto simp: loop_body_def Let_def)

lemma consume_trace:
  "trace (snd (consume a st items)) =
     trace st @ (if armed st \<and> TimerFires \<in> set (consumed items) then timeout_callback a else [])"
proof (induction items arbitrary: st)
  case Nil
  then show ?case by simp
next
  case (Cons i items)
  show ?case
  proof (cases i)
    case (Yield msg)
    show ?thesis
    proof (cases "throwing (Yield msg)")
      case True
      then show ?thesis using Yield by (simp add: loop_body_throwing)
    next
      case False
      then obtain st' where s: "loop_body st msg = Inr st'" "armed st' = armed st"
        "trace st' = trace st"
        using loop_body_quiet by blast
      have "\<not> throwing i" using Yield False by simp
      then have "consumed (i # items) = i # consumed items"
        by (simp only: consumed.simps if_False)
      then show ?thesis using Yield s Cons.IH [of st'] by simp
    qed
  next
    case (Raise e)
    then show ?thesis by simp
  next
    case TimerFires
    then show ?thesis using Cons.IH by simp
  qed
qed

lemma consume_quiet:
  "quiet pre \<Longrightarrow> \<exists>st'. consume a st (pre @ rest) = consume a st' rest \<and>
     allMessages st' = allMessages st @ pushed pre"
proof (induction pre arbitrary: st)
  case Nil
  then show ?case by auto
next
  case (Cons i pre)
  then have q: "\<not> throwing i" "quiet pre" by (simp_all add: quiet_def)
  show ?case
  proof (cases i)
    case (Yield msg)
    with q obtain st1 where s: "loop_body st msg = Inr st1"
      "allMessages st1 = allMessages st @ pushed [Yield msg]"
      using loop_body_quiet by blast
    from Cons.IH [OF q(2), of st1] obtain st' where
      "consume a st1 (pre @ rest) = consume a st' rest"
      "allMessages st' = allMessages st1 @ pushed pre" by blast
    then show ?thesis using Yield s by (auto split: if_splits)
  next
    case (Raise e)
    with q show ?thesis by simp
  next
    case TimerFires
    let ?st1 = "if armed st then st\<lparr>armed := False, trace := trace st @ timeout_callback a\<rparr>
                else st"
    from Cons.IH [OF q(2), of ?st1] obtain st' where
      "consume a ?st1 (pre @ rest) = consume a st' rest"
      "allMessages st' = allMessages ?st1 @ pushed pre" by blast
    then show ?thesis using TimerFires by (auto split: if_splits)
  qed
qed

lemma consume_final_success:
  assumes "quiet pre" "msg_type ev = ''result''" "msg_subtype ev = Some ''success''"
  shows "\<exists>st'. consume a st (pre @ [Yield ev]) = (None, st') \<and>
           resultText st' = msg_result ev \<and> sessionId st' = msg_session_id ev \<and>
           allMessages st' = allMessages st @ pushed pre"
proof -
  from consume_quiet [OF assms(1), of a st "[Yield ev]"] obtain st1 where
    c: "consume a st (pre @ [Yield ev]) = consume a st1 [Yield ev]"
       "allMessages st1 = allMessages st @ pushed pre" by blast
  from loop_body_success [OF assms(2,3), of st1] obtain st' where
    "loop_body st1 ev = Inr st'" "resultText st' = msg_result ev"
    "sessionId st' = msg_session_id ev" "allMessages st' = allMessages st1" by blast
  with c show ?thesis by simp
qed

lemma consume_final_error:
  assumes "quiet pre" "msg_type ev = ''result''" "msg_subtype ev \<noteq> Some ''success''"
  shows "fst (consume a st (pre @ [Yield ev])) = Some (Error (sdk_error_message ev))"
proof -
  from consume_quiet [OF assms(1), of a st "[Yield ev]"] obtain st1 where
    c: "consume a st (pre @ [Yield ev]) = consume a st1 [Yield ev]" by blast
  have "throwing (Yield ev)" using assms by simp
  then show ?thesis using c by (simp add: loop_body_throwing)
qed

lemma loadObserverState_Inr:
  "\<exists>state logs. loadObserverState p fs a w = Inr (state, logs) \<and> list_all is_log logs"
  by (auto simp: loadObserverState_def Let_def split: sum.splits)

lemma formatObservationsPrompt_Inr:
  "state \<noteq> JNull \<Longrightarrow> \<exists>block. formatObservationsPrompt state = Inr block"
  by (simp add: formatObservationsPrompt_def get_prop_opt Let_def)

lemma truthy_prop_not_null: "truthy (opt_prop (Some state) k) \<Longrightarrow> state \<noteq> JNull"
  by (cases state) auto

lemma observer_block_Inr:
  assumes "loadObserverState p fs a w = Inr (state, logs)"
  shows "\<exists>parts. observer_block p fs agent a w shouldReset message =
           Inr (parts,
                (if ac_observer_enabled agent \<and> shouldReset \<and>
                    truthy (opt_prop (Some state) ''observations_text'')
                 then clearance_notice @ message else message),
                (if ac_observer_enabled agent then logs else []))"
proof (cases "ac_observer_enabled agent \<and> truthy (opt_prop (Some state) ''observations_text'')")
  case True
  then obtain block where "formatObservationsPrompt state = Inr block"
    using formatObservationsPrompt_Inr truthy_prop_not_null by blast
  with True assms show ?thesis by (simp add: observer_block_def)
next
  case False
  with assms show ?thesis by (auto simp: observer_block_def)
qed

lemma prompts_logs: "list_all is_log logs \<Longrightarrow> prompts (logs @ rest) = prompts rest"
proof (induction logs)
  case Nil
  then show ?case by simp
next
  case (Cons e logs)
  then show ?case by (cases e) simp_all
qed

lemma reset_log_is_log: "list_all is_log (reset_log what shouldReset a)"
  by (simp add: reset_log_def)

text \<open>The native branch: its outbound prompt and its call.\<close>

lemma invoke_native_shape:
  assumes "loadObserverState (env_parse env) (env_fs env) a w = Inr (state, logs)"
  shows "\<exists>logs' options.
    list_all is_log logs' \<and>
    invoke_native env agent a message w shouldReset teams wd =
      run_query a logs' (native_prompt agent shouldReset state message) options
        (env_sdk env (native_prompt agent shouldReset state message) options)"
proof -
  from observer_block_Inr [OF assms, of agent shouldReset message] obtain parts where
    ob: "observer_block (env_parse env) (env_fs env) agent a w shouldReset message =
           Inr (parts, native_prompt agent shouldReset state message,
                (if ac_observer_enabled agent then logs else []))"
    unfolding native_prompt_def by blast
  have l: "list_all is_log logs"
    using loadObserverState_Inr [of "env_parse env" "env_fs env" a w] assms by auto
  let ?logs = "[Log INFO (''Using Claude provider via SDK (agent: '' @ a @ '')'')] @
               reset_log [] shouldReset a @ (if ac_observer_enabled agent then logs else [])"
  have "list_all is_log ?logs" using l reset_log_is_log by simp
  moreover have "invoke_native env agent a message w shouldReset teams wd =
      run_query a ?logs (native_prompt agent shouldReset state message)
        (native_options env agent shouldReset (parts @ team_block a teams) wd)
        (env_sdk env (native_prompt agent shouldReset state message)
           (native_options env agent shouldReset (parts @ team_block a teams) wd))"
    by (simp add: invoke_native_def ob Let_def)
  ultimately show ?thesis by blast
qed

lemma run_query_trace:
  "snd (run_query a logs prompt options stream) =
     logs @ [SetTimeout SDK_QUERY_TIMEOUT_MS, Query prompt options] @
     (if TimerFires \<in> set (consumed stream) then timeout_callback a else []) @
     [ClearTimeout]"
proof -
  let ?st0 = "\<lparr>allMessages = [], resultText = Some [], sessionId = Some [], armed = True,
               trace = logs @ [SetTimeout SDK_QUERY_TIMEOUT_MS, Query prompt options]\<rparr>"
  have "snd (run_query a logs prompt options stream) =
          trace (snd (consume a ?st0 stream)) @ [ClearTimeout]"
    by (simp add: run_query_def Let_def split: option.splits)
  then show ?thesis by (simp add: consume_trace)
qed

lemma run_query_success:
  assumes "quiet pre" "msg_type ev = ''result''" "msg_subtype ev = Some ''success''"
  shows "fst (run_query a logs prompt options (pre @ [Yield ev])) =
           Inr \<lparr>ir_response = msg_result ev,
                ir_messages = collectObserverMessages (pushed pre),
                ir_sessionId = msg_session_id ev\<rparr>"
proof -
  let ?st0 = "\<lparr>allMessages = [], resultText = Some [], sessionId = Some [], armed = True,
               trace = logs @ [SetTimeout SDK_QUERY_TIMEOUT_MS, Query prompt options]\<rparr>"
  from consume_final_success [OF assms, of a ?st0] obtain st' where
    "consume a ?st0 (pre @ [Yield ev]) = (None, st')" "resultText st' = msg_result ev"
    "sessionId st' = msg_session_id ev" "allMessages st' = pushed pre" by auto
  then show ?thesis by (simp add: run_query_def Let_def)
qed

lemma run_query_error:
  assumes "quiet pre" "msg_type ev = ''result''" "msg_subtype ev \<noteq> Some ''success''"
  shows "fst (run_query a logs prompt options (pre @ [Yield ev])) =
           Inl (Error (sdk_error_message ev))"
  using consume_final_error [OF assms] by (simp add: run_query_def Let_def)

lemma invokeAgent_native:
  assumes "ac_provider agent \<noteq> ''openai''" "ac_provider agent \<noteq> ''opencode''"
  shows "invokeAgent env agent a message w shouldReset teams =
           (map_sum id Structured
              (fst (invoke_native env agent a message w shouldReset teams
                      (resolve_working_dir agent w a))),
            snd (invoke_native env agent a message w shouldReset teams
                   (resolve_working_dir agent w a)))"
  using assms by (simp add: invokeAgent_def provider_of_def Let_def)

lemma native_terminal_result:
  assumes "ac_provider agent \<noteq> ''openai''" "ac_provider agent \<noteq> ''opencode''"
    and "env_sdk env = (\<lambda>prompt options. pre @ [Yield ev])"
    and "quiet pre" and "msg_type ev = ''result''"
  shows "msg_subtype ev = Some ''success'' \<Longrightarrow>
           fst (invokeAgent env agent a message w shouldReset teams) =
             Inr (Structured \<lparr>ir_response = msg_result ev,
                              ir_messages = collectObserverMessages (pushed pre),
                              ir_sessionId = msg_session_id ev\<rparr>)"
    and "msg_subtype ev \<noteq> Some ''success'' \<Longrightarrow>
           fst (invokeAgent env agent a message w shouldReset teams) =
             Inl (Error (sdk_error_message ev))"
proof -
  obtain state logs where
    "loadObserverState (env_parse env) (env_fs env) a w = Inr (state, logs)"
    using loadObserverState_Inr by blast
  from invoke_native_shape [OF this, of agent message shouldReset teams
      "resolve_working_dir agent w a"]
  obtain logs' options where
    n: "invoke_native env agent a message w shouldReset teams (resolve_working_dir agent w a) =
          run_query a logs' (native_prompt agent shouldReset state message) options
            (pre @ [Yield ev])"
    using assms(3) by auto
  show "msg_subtype ev = Some ''success'' \<Longrightarrow>
           fst (invokeAgent env agent a message w shouldReset teams) =
             Inr (Structured \<lparr>ir_response = msg_result ev,
                              ir_messages = collectObserverMessages (pushed pre),
                              ir_sessionId = msg_session_id ev\<rparr>)"
    using run_query_success [OF assms(4,5)] n
    by (simp add: invokeAgent_native [OF assms(1,2)])
  show "msg_subtype ev \<noteq> Some ''success'' \<Longrightarrow>
           fst (invokeAgent env agent a message w shouldReset teams) =
             Inl (Error (sdk_error_message ev))"
    using run_query_error [OF assms(4,5)] n
    by (simp add: invokeAgent_native [OF assms(1,2)])
qed

lemma native_trace:
  assumes "ac_provider agent \<noteq> ''openai''" "ac_provider agent \<noteq> ''opencode''"
    and "loadObserverState (env_parse env) (env_fs env) a w = Inr (state, logs)"
  shows "\<exists>logs' options. list_all is_log logs' \<and>
    snd (invokeAgent env agent a message w shouldReset teams) =
      logs' @
      [SetTimeout SDK_QUERY_TIMEOUT_MS,
       Query (native_prompt agent shouldReset state message) options] @
      (if TimerFires \<in> set (consumed
             (env_sdk env (native_prompt agent shouldReset state message) options))
       then timeout_callback a else []) @
      [ClearTimeout]"
proof -
  from invoke_native_shape [OF assms(3), of agent message shouldReset teams
      "resolve_working_dir agent w a"]
  obtain logs' options where
    n: "list_all is_log logs'"
       "invoke_native env agent a message w shouldReset teams (resolve_working_dir agent w a) =
          run_query a logs' (native_prompt agent shouldReset state message) options
            (env_sdk env (native_prompt agent shouldReset state message) options)"
    by blast
  have "snd (invokeAgent env agent a message w shouldReset teams) =
      logs' @
      [SetTimeout SDK_QUERY_TIMEOUT_MS,
       Query (native_prompt agent shouldReset state message) options] @
      (if TimerFires \<in> set (consumed
             (env_sdk env (native_prompt agent shouldReset state message) options))
       then timeout_callback a else []) @
      [ClearTimeout]"
    by (simp only: invokeAgent_native [OF assms(1,2)] snd_conv n(2) run_query_trace)
  with n(1) show ?thesis by blast
qed

lemma prompts_native_trace:
  "list_all is_log logs' \<Longrightarrow>
   prompts (logs' @ [SetTimeout n, Query prompt options] @
            (if b then timeout_callback a else []) @ [ClearTimeout]) = [prompt]"
  by (simp add: prompts_logs timeout_callback_def)

lemma ex_agent_native:
  "ac_provider ex_agent \<noteq> ''openai''" "ac_provider ex_agent \<noteq> ''opencode''"
  "ac_provider ex_observed_agent \<noteq> ''openai''" "ac_provider ex_observed_agent \<noteq> ''opencode''"
  by (simp_all add: ex_agent_def ex_observed_agent_def)

lemma ex_env_sdk: "env_sdk (ex_env fs items) = (\<lambda>prompt options. items)"
  by (simp add: ex_env_def)

lemma ex_quiet: "quiet []" "quiet [Yield ex_assistant_event]"
  by (simp_all add: quiet_def ex_assistant_event_def)

lemma ex_collect:
  "collectObserverMessages (pushed [Yield ex_assistant_event]) =
     [\<lparr>om_role = ''assistant'',
       om_content = JArr [JObj [(''type'', JStr ''text''), (''text'', JStr ''Working.'')]]\<rparr>]"
  by (simp add: ex_assistant_event_def)

lemma ex_event_fields:
  "msg_type ex_success_event = ''result''" "msg_subtype ex_success_event = Some ''success''"
  "msg_result ex_success_event = Some ''Done.''" "msg_session_id ex_success_event = Some ''S1''"
  "msg_type ex_error_event = ''result''"
  "msg_subtype ex_error_event = Some ''error_during_execution''"
  "msg_errors ex_error_event = Some [''tool failed'', ''gave up'']"
  "msg_type ex_max_turns_event = ''result''"
  "msg_subtype ex_max_turns_event = Some ''error_max_turns''"
  "msg_errors ex_max_turns_event = Some []"
  by (simp_all add: ex_success_event_def ex_error_event_def ex_max_turns_event_def)

text \<open>
  C2 (as amended). In a native invocation whose stream ends with a result event, no
  earlier item throwing: when the event's subtype is \<^verbatim>\<open>success\<close>, the response is its
  result text and the session id its \<^verbatim>\<open>session_id\<close> (the messages are the assistant
  and user messages yielded before it); otherwise the invocation fails with an error whose
  message is the event's error list joined with \<^verbatim>\<open>"; "\<close> when that list is present and
  the joined text is not empty, and the generic message naming the subtype when the list is
  absent or joins to the empty text.
\<close>

theorem C2_terminal_result_event:
  assumes "ac_provider agent \<noteq> ''openai''" "ac_provider agent \<noteq> ''opencode''"
    and "env_sdk env = (\<lambda>prompt options. pre @ [Yield ev])"
    and "quiet pre" and "msg_type ev = ''result''"
  shows
   "(msg_subtype ev = Some ''success'' \<longrightarrow>
       fst (invokeAgent env agent a message w shouldReset teams) =
         Inr (Structured \<lparr>ir_response = msg_result ev,
                          ir_messages = collectObserverMessages (pushed pre),
                          ir_sessionId = msg_session_id ev\<rparr>)) \<and>
    (msg_subtype ev \<noteq> Some ''success'' \<longrightarrow>
       fst (invokeAgent env agent a message w shouldReset teams) =
         Inl (Error (sdk_error_message ev))) \<and>
    (msg_errors ev = Some es \<and> join ''; '' es \<noteq> [] \<longrightarrow>
       sdk_error_message ev = join ''; '' es) \<and>
    (msg_errors ev = None \<or> msg_errors ev = Some es \<and> join ''; '' es = [] \<longrightarrow>
       sdk_error_message ev = generic_sdk_error ev) \<and>
    (msg_subtype ev = Some t \<longrightarrow> generic_sdk_error ev = ''SDK error: '' @ t)"
  using native_terminal_result [OF assms, of a message w shouldReset teams]
  by (auto simp: sdk_error_message_def generic_sdk_error_def)

theorem C2_terminal_result_witness:
  "fst (invokeAgent (ex_env Map.empty [Yield ex_assistant_event, Yield ex_success_event])
          ex_agent ''agent-a'' ''hello'' ''/ws'' False []) =
     Inr (Structured
       \<lparr>ir_response = Some ''Done.'',
        ir_messages =
          [\<lparr>om_role = ''assistant'',
            om_content = JArr [JObj [(''type'', JStr ''text''), (''text'', JStr ''Working.'')]]\<rparr>],
        ir_sessionId = Some ''S1''\<rparr>) \<and>
   fst (invokeAgent (ex_env Map.empty [Yield ex_assistant_event, Yield ex_error_event])
          ex_agent ''agent-a'' ''hello'' ''/ws'' False []) =
     Inl (Error ''tool failed; gave up'')"
  using C2_terminal_result_event
          [of ex_agent "ex_env Map.empty [Yield ex_assistant_event, Yield ex_success_event]"
              "[Yield ex_assistant_event]" ex_success_event "''agent-a''" "''hello''" "''/ws''"
              False "[]" "[]" "''success''"]
        C2_terminal_result_event
          [of ex_agent "ex_env Map.empty [Yield ex_assistant_event, Yield ex_error_event]"
              "[Yield ex_assistant_event]" ex_error_event "''agent-a''" "''hello''" "''/ws''"
              False "[]" "[''tool failed'', ''gave up'']" "''error_during_execution''"]
  by (simp add: ex_agent_native ex_env_sdk ex_quiet ex_event_fields ex_collect
      del: pushed.simps)

text \<open>
  C2 as stated fails at a result event whose error list is present and empty (as
  the SDK reports the turn limit): the joined list is the empty text, and the error raised
  carries the generic message.
\<close>

theorem C2_terminal_result_counterexample:
  "msg_errors ex_max_turns_event = Some [] \<and>
   claimed_sdk_error_message ex_max_turns_event = [] \<and>
   fst (invokeAgent (ex_env Map.empty [Yield ex_max_turns_event]) ex_agent ''agent-a''
          ''hello'' ''/ws'' False []) =
     Inl (Error ''SDK error: error_max_turns'')"
  using native_terminal_result(2)
          [of ex_agent "ex_env Map.empty [Yield ex_max_turns_event]" "[]" ex_max_turns_event
              "''agent-a''" "''hello''" "''/ws''" False "[]"]
  by (simp add: ex_agent_native ex_env_sdk ex_quiet ex_event_fields claimed_sdk_error_message_def
      sdk_error_message_def generic_sdk_error_def)

lemma ex_load:
  "loadObserverState ex_state_parser ex_fs ''agent-a'' ''/ws'' = Inr (ex_state, [])"
  "loadObserverState ex_state_parser Map.empty ''agent-a'' ''/ws'' = Inr (JNull, [])"
  by (simp_all add: loadObserverState_def getObserverStateDir_def path_join_def existsSync_def
      readFileSync_def JSON_parse_def ex_fs_def ex_state_file_def ex_state_parser_def
      parser_of_graph_def)

lemma ex_env_fields:
  "env_parse (ex_env fs items) = ex_state_parser" "env_fs (ex_env fs items) = fs"
  by (simp_all add: ex_env_def)

lemma ex_observed_enabled: "ac_observer_enabled ex_observed_agent"
  by (simp add: ex_observed_agent_def)

lemma ex_consumed:
  "consumed [Yield ex_assistant_event, TimerFires, Raise ''aborted''] =
     [Yield ex_assistant_event, TimerFires, Raise ''aborted'']"
  by (simp add: ex_assistant_event_def)

lemma ex_state_text:
  "opt_prop (Some ex_state) ''observations_text'' =
     Some (JStr ''* HIGH (10:00) User prefers Python'')"
  by (simp add: ex_state_def)

text \<open>
  C3. In a native invocation the prompt handed to the SDK is the clearance notice, once,
  followed by the message when the invocation resets, the observer is enabled and the
  loaded state has a non-empty observations text. The notice is the fixed text that says
  that the previous conversation was cleared and that the observations contain the memory
  of past work, and two line feeds. The prompt is the message itself when the invocation
  does not reset, when the observer is disabled, when no state is loaded, and when the
  observations text is empty. The SDK is called once.
\<close>

theorem C3_clearance_notice:
  assumes "ac_provider agent \<noteq> ''openai''" "ac_provider agent \<noteq> ''opencode''"
    and "loadObserverState (env_parse env) (env_fs env) a w = Inr (state, logs)"
  shows
   "(shouldReset \<and> ac_observer_enabled agent \<and>
     opt_prop (Some state) ''observations_text'' = Some (JStr t) \<and> t \<noteq> [] \<longrightarrow>
       prompts (snd (invokeAgent env agent a message w shouldReset teams)) =
         [''[Your previous conversation was cleared. Your observations contain your memory of past work. Pick up where you left off.]'' @
          [CHR 0x0A, CHR 0x0A] @ message]) \<and>
    (\<not> shouldReset \<or> \<not> ac_observer_enabled agent \<or> state = JNull \<or>
     opt_prop (Some state) ''observations_text'' = Some (JStr []) \<longrightarrow>
       prompts (snd (invokeAgent env agent a message w shouldReset teams)) = [message])"
proof -
  from native_trace [OF assms, of message shouldReset teams]
  have "prompts (snd (invokeAgent env agent a message w shouldReset teams)) =
          [native_prompt agent shouldReset state message]"
    using prompts_native_trace by auto
  then show ?thesis by (auto simp: native_prompt_def clearance_notice_def nl_def)
qed

theorem C3_clearance_notice_witness:
  "prompts (snd (invokeAgent (ex_env ex_fs []) ex_observed_agent ''agent-a'' ''hello'' ''/ws''
                   True [])) =
     [''[Your previous conversation was cleared. Your observations contain your memory of past work. Pick up where you left off.]'' @
      [CHR 0x0A, CHR 0x0A] @ ''hello''] \<and>
   prompts (snd (invokeAgent (ex_env ex_fs []) ex_observed_agent ''agent-a'' ''hello'' ''/ws''
                   False [])) =
     [''hello''] \<and>
   prompts (snd (invokeAgent (ex_env Map.empty []) ex_observed_agent ''agent-a'' ''hello''
                   ''/ws'' True [])) =
     [''hello'']"
  using C3_clearance_notice
          [of ex_observed_agent "ex_env ex_fs []" "''agent-a''" "''/ws''" ex_state "[]" True
              "''* HIGH (10:00) User prefers Python''" "''hello''" "[]"]
        C3_clearance_notice
          [of ex_observed_agent "ex_env ex_fs []" "''agent-a''" "''/ws''" ex_state "[]" False
              "''* HIGH (10:00) User prefers Python''" "''hello''" "[]"]
        C3_clearance_notice
          [of ex_observed_agent "ex_env Map.empty []" "''agent-a''" "''/ws''" JNull "[]" True
              "[]" "''hello''" "[]"]
  by (simp add: ex_agent_native ex_env_fields ex_load ex_state_text ex_observed_enabled)

text \<open>
  C5. The trace of a native invocation, whatever its stream does and however it ends:
  log lines; the timer set to 120000 ms, immediately before the call of the SDK; if the
  timer fires while the stream is being consumed, the warning and the abort of the
  controller; and last, the clearing of the timer.
\<close>

theorem C5_timeout_armed_and_cleared:
  assumes "ac_provider agent \<noteq> ''openai''" "ac_provider agent \<noteq> ''opencode''"
  shows "\<exists>logs prompt options. list_all is_log logs \<and>
    snd (invokeAgent env agent a message w shouldReset teams) =
      logs @ [SetTimeout 120000, Query prompt options] @
      (if TimerFires \<in> set (consumed (env_sdk env prompt options))
       then [Log WARN (timeout_warning a), Abort] else []) @
      [ClearTimeout]"
proof -
  obtain state logs where
    "loadObserverState (env_parse env) (env_fs env) a w = Inr (state, logs)"
    using loadObserverState_Inr by blast
  from native_trace [OF assms this, of message shouldReset teams]
  show ?thesis unfolding SDK_QUERY_TIMEOUT_MS_def timeout_callback_def by blast
qed

lemma ex_trace:
  "invokeAgent (ex_env Map.empty [Yield ex_assistant_event, TimerFires, Raise ''aborted''])
     ex_agent ''agent-a'' ''hello'' ''/ws'' False [] =
   (Inl (Error ''aborted''),
    [Log INFO ''Using Claude provider via SDK (agent: agent-a)'',
     SetTimeout 120000,
     Query ''hello''
       \<lparr>qo_cwd = ''/ws/agent-a'', qo_append = None, qo_maxTurns = 1,
        qo_model = Some ''sonnet'', qo_continue = Some True, qo_sessionId = None,
        qo_persistSession = None\<rparr>,
     Log WARN ''SDK query timed out after 120s (agent: agent-a)'',
     Abort,
     ClearTimeout])"
  by (simp add: invokeAgent_def provider_of_def resolve_working_dir_def path_join_def
      invoke_native_def observer_block_def team_block_def findTeamForAgent_def
      native_options_def run_query_def reset_log_def loop_body_def timeout_callback_def
      timeout_warning_def SDK_QUERY_TIMEOUT_MS_def string_of_nat.simps digit_char_def
      truthy_str_def ex_agent_def ex_env_def ex_assistant_event_def Let_def)

theorem C5_timeout_witness:
  "(\<exists>logs prompt options. list_all is_log logs \<and>
      snd (invokeAgent
             (ex_env Map.empty [Yield ex_assistant_event, TimerFires, Raise ''aborted''])
             ex_agent ''agent-a'' ''hello'' ''/ws'' False []) =
        logs @ [SetTimeout 120000, Query prompt options] @
        [Log WARN (timeout_warning ''agent-a''), Abort] @ [ClearTimeout]) \<and>
   fst (invokeAgent
          (ex_env Map.empty [Yield ex_assistant_event, TimerFires, Raise ''aborted''])
          ex_agent ''agent-a'' ''hello'' ''/ws'' False []) =
     Inl (Error ''aborted'')"
  using C5_timeout_armed_and_cleared
          [of ex_agent
              "ex_env Map.empty [Yield ex_assistant_event, TimerFires, Raise ''aborted'']"
              "''agent-a''" "''hello''" "''/ws''" False "[]"]
  by (simp add: ex_agent_native ex_env_sdk ex_trace ex_consumed del: consumed.simps)

section \<open>The observer state: loading and formatting\<close>

lemma loadObserverState_cases:
  "loadObserverState p fs a w =
     (if \<not> existsSync fs (observer_state_file a w) then Inr (JNull, [])
      else (case readFileSync fs (observer_state_file a w) of
              Inl e \<Rightarrow>
                Inr (JNull, [Log WARN (''Failed to read observer state for '' @ a @ '': '' @
                                        err_message e)])
            | Inr raw \<Rightarrow>
                (case p raw of
                   Inl m \<Rightarrow>
                     Inr (JNull, [Log WARN (''Failed to read observer state for '' @ a @ '': '' @ m)])
                 | Inr data \<Rightarrow> Inr (data, []))))"
  by (simp add: loadObserverState_def observer_state_file_def JSON_parse_def Let_def
      split: sum.splits)

lemma readFileSync_exists: "readFileSync fs path = Inr raw \<Longrightarrow> existsSync fs path"
  by (auto simp: readFileSync_def existsSync_def split: option.splits)

text \<open>
  C7. \<^verbatim>\<open>loadObserverState\<close> always returns: \<^verbatim>\<open>null\<close> and no log line when the state
  file does not exist; \<^verbatim>\<open>null\<close> and one warning when the file exists and its content
  does not parse, or cannot be read.
\<close>

theorem C7_loadObserverState_never_raises:
  "(\<exists>state logs. loadObserverState p fs a w = Inr (state, logs)) \<and>
   (\<not> existsSync fs (observer_state_file a w) \<longrightarrow>
      loadObserverState p fs a w = Inr (JNull, [])) \<and>
   (readFileSync fs (observer_state_file a w) = Inr raw \<and> p raw = Inl m \<longrightarrow>
      loadObserverState p fs a w =
        Inr (JNull, [Log WARN (''Failed to read observer state for '' @ a @ '': '' @ m)])) \<and>
   (existsSync fs (observer_state_file a w) \<and>
    readFileSync fs (observer_state_file a w) = Inl e \<longrightarrow>
      loadObserverState p fs a w =
        Inr (JNull, [Log WARN (''Failed to read observer state for '' @ a @ '': '' @
                                err_message e)]))"
proof (intro conjI impI)
  show "\<exists>state logs. loadObserverState p fs a w = Inr (state, logs)"
    by (auto simp: loadObserverState_cases split: sum.splits)
next
  assume "\<not> existsSync fs (observer_state_file a w)"
  then show "loadObserverState p fs a w = Inr (JNull, [])"
    by (simp add: loadObserverState_cases)
next
  assume "readFileSync fs (observer_state_file a w) = Inr raw \<and> p raw = Inl m"
  then show "loadObserverState p fs a w =
      Inr (JNull, [Log WARN (''Failed to read observer state for '' @ a @ '': '' @ m)])"
    by (simp add: loadObserverState_cases readFileSync_exists)
next
  assume "existsSync fs (observer_state_file a w) \<and>
    readFileSync fs (observer_state_file a w) = Inl e"
  then show "loadObserverState p fs a w =
      Inr (JNull, [Log WARN (''Failed to read observer state for '' @ a @ '': '' @
                              err_message e)])"
    by (simp add: loadObserverState_cases)
qed

lemma ex_state_file_eq: "observer_state_file ''agent-a'' ''/ws'' = ex_state_file"
  by (simp add: observer_state_file_def getObserverStateDir_def path_join_def ex_state_file_def)

lemma ex_fs_reads:
  "\<not> existsSync Map.empty ex_state_file"
  "readFileSync ex_broken_fs ex_state_file = Inr ''{not json''"
  "readFileSync ex_fs ex_state_file = Inr ex_state_raw"
  by (simp_all add: existsSync_def readFileSync_def ex_broken_fs_def ex_fs_def)

lemma ex_state_parser_simps:
  "ex_state_parser ''{not json'' = Inl ''Unexpected token''"
  "ex_state_parser ex_state_raw = Inr ex_state"
  by (simp_all add: ex_state_parser_def parser_of_graph_def ex_state_raw_def)

theorem C7_loadObserverState_witness:
  "loadObserverState ex_state_parser Map.empty ''agent-a'' ''/ws'' = Inr (JNull, []) \<and>
   loadObserverState ex_state_parser ex_broken_fs ''agent-a'' ''/ws'' =
     Inr (JNull, [Log WARN ''Failed to read observer state for agent-a: Unexpected token''])"
  using C7_loadObserverState_never_raises
          [of ex_state_parser Map.empty "''agent-a''" "''/ws''" "[]" "[]" "Error []"]
        C7_loadObserverState_never_raises
          [of ex_state_parser ex_broken_fs "''agent-a''" "''/ws''" "''{not json''"
              "''Unexpected token''" "Error []"]
  by (simp add: ex_state_file_eq ex_fs_reads ex_state_parser_simps)

lemma readObserverState_cases:
  "readObserverState p fs dir =
     (case readFileSync fs (route_state_file dir) of
        Inl e \<Rightarrow> default_state
      | Inr raw \<Rightarrow> (case p raw of Inl m \<Rightarrow> default_state | Inr data \<Rightarrow> data))"
  by (simp add: readObserverState_def route_state_file_def JSON_parse_def Let_def
      split: sum.splits)

lemma observer_block_parts:
  assumes "observer_block p fs agent a w r message = Inr (parts, prompt, logs)" "parts \<noteq> []"
  shows "\<exists>state block. loadObserverState p fs a w = Inr (state, logs) \<and>
           truthy (opt_prop (Some state) ''observations_text'') \<and>
           formatObservationsPrompt state = Inr block \<and> parts = [block]"
  using assms
  by (auto simp: observer_block_def split: if_splits sum.splits prod.splits)

text \<open>
  C9 (as amended). A successful load hands back the parsed content of the file as it is:
  nothing is added and nothing defaulted. The state with every field at its default is
  what \<^verbatim>\<open>readObserverState\<close> returns when reading or parsing fails. The prompt assembly
  hands a loaded state to the formatter only when its observations text is truthy.
\<close>

theorem C9_loaded_state_is_parsed_content:
  "(readFileSync fs (observer_state_file a w) = Inr raw \<and> p raw = Inr data \<longrightarrow>
      loadObserverState p fs a w = Inr (data, [])) \<and>
   (readFileSync fs (route_state_file dir) = Inr raw \<and> p raw = Inr data \<longrightarrow>
      readObserverState p fs dir = data) \<and>
   (readFileSync fs (route_state_file dir) = Inl e \<or>
    readFileSync fs (route_state_file dir) = Inr raw \<and> p raw = Inl m \<longrightarrow>
      readObserverState p fs dir = default_state) \<and>
   all_fields_present default_state \<and>
   (observer_block p fs agent a w r message = Inr (parts, prompt, logs) \<and> parts \<noteq> [] \<longrightarrow>
      (\<exists>state block. loadObserverState p fs a w = Inr (state, logs) \<and>
         truthy (opt_prop (Some state) ''observations_text'') \<and>
         formatObservationsPrompt state = Inr block \<and> parts = [block]))"
proof (intro conjI impI)
  assume "readFileSync fs (observer_state_file a w) = Inr raw \<and> p raw = Inr data"
  then show "loadObserverState p fs a w = Inr (data, [])"
    by (simp add: loadObserverState_cases readFileSync_exists)
next
  assume "readFileSync fs (route_state_file dir) = Inr raw \<and> p raw = Inr data"
  then show "readObserverState p fs dir = data"
    by (simp add: readObserverState_cases)
next
  assume "readFileSync fs (route_state_file dir) = Inl e \<or>
    readFileSync fs (route_state_file dir) = Inr raw \<and> p raw = Inl m"
  then show "readObserverState p fs dir = default_state"
    by (auto simp: readObserverState_cases)
next
  show "all_fields_present default_state"
    by (simp add: all_fields_present_def default_state_def)
next
  assume "observer_block p fs agent a w r message = Inr (parts, prompt, logs) \<and> parts \<noteq> []"
  then show "\<exists>state block. loadObserverState p fs a w = Inr (state, logs) \<and>
         truthy (opt_prop (Some state) ''observations_text'') \<and>
         formatObservationsPrompt state = Inr block \<and> parts = [block]"
    using observer_block_parts by blast
qed

lemma ex_format: "formatObservationsPrompt ex_state = Inr ex_state_block"
  by (simp add: formatObservationsPrompt_def ex_state_def ex_state_block_def template_def
      nl_def Let_def)

lemma ex_observer_block:
  "observer_block ex_state_parser ex_fs ex_observed_agent ''agent-a'' ''/ws'' False ''hello'' =
     Inr ([ex_state_block], ''hello'', [])"
  by (simp add: observer_block_def ex_observed_enabled ex_load ex_state_text ex_format)

lemma ex_route_read:
  "readFileSync ex_fs (route_state_file ''/ws/agent-a'') =
     Inl (Error (''ENOENT: no such file or directory, open '' @ route_state_file ''/ws/agent-a''))"
  by (simp add: readFileSync_def route_state_file_def path_join_def ex_fs_def ex_state_file_def)

theorem C9_loaded_state_witness:
  "loadObserverState ex_state_parser ex_fs ''agent-a'' ''/ws'' = Inr (ex_state, []) \<and>
   readObserverState ex_state_parser ex_fs ''/ws/agent-a'' = default_state \<and>
   (\<exists>state. loadObserverState ex_state_parser ex_fs ''agent-a'' ''/ws'' = Inr (state, []) \<and>
      truthy (opt_prop (Some state) ''observations_text'') \<and>
      formatObservationsPrompt state = Inr ex_state_block)"
  using C9_loaded_state_is_parsed_content
          [of ex_fs "''agent-a''" "''/ws''" ex_state_raw ex_state_parser ex_state
              "''/ws/agent-a''"
              "Error (''ENOENT: no such file or directory, open '' @
                      route_state_file ''/ws/agent-a'')"
              "[]" ex_observed_agent False "''hello''" "[ex_state_block]" "''hello''" "[]"]
  by (simp add: ex_state_file_eq ex_fs_reads ex_state_parser_simps ex_observer_block
      ex_route_read ex_state_text ex_format)

lemma ex_state_partial:
  "opt_prop (Some ex_state) ''current_task'' = None" "\<not> all_fields_present ex_state"
  by (simp_all add: all_fields_present_def ex_state_def)

text \<open>
  C9 as stated fails on a state file that holds only the observations text: the
  load succeeds, the state has no \<^verbatim>\<open>current_task\<close> (and none of the counters), and the
  prompt assembly hands that state to the formatter.
\<close>

theorem C9_loaded_state_counterexample:
  "loadObserverState ex_state_parser ex_fs ''agent-a'' ''/ws'' = Inr (ex_state, []) \<and>
   opt_prop (Some ex_state) ''current_task'' = None \<and>
   \<not> all_fields_present ex_state \<and>
   formatObservationsPrompt ex_state = Inr ex_state_block \<and>
   observer_block ex_state_parser ex_fs ex_observed_agent ''agent-a'' ''/ws'' False ''hello'' =
     Inr ([ex_state_block], ''hello'', [])"
  by (simp add: ex_load ex_format ex_observer_block ex_state_partial)

section \<open>Recording an exchange\<close>











section \<open>Stale team references in the formatted prompt\<close>

lemma split_on_not_Nil: "split_on c s \<noteq> []"
  by (induction s) (auto split: list.splits)

lemma split_on_no_sep: "l \<in> set (split_on c s) \<Longrightarrow> c \<notin> set l"
proof (induction s arbitrary: l)
  case Nil
  then show ?case by simp
next
  case (Cons x s)
  then show ?case
    by (cases "split_on c s") (auto split: if_splits)
qed

lemma split_on_line: "c \<notin> set x \<Longrightarrow> split_on c (x @ c # rest) = x # split_on c rest"
  by (induction x) (auto split: list.splits)

lemma split_on_single: "c \<notin> set x \<Longrightarrow> split_on c x = [x]"
  by (induction x) (auto split: list.splits)

lemma split_on_join:
  "ls \<noteq> [] \<Longrightarrow> list_all (\<lambda>l. c \<notin> set l) ls \<Longrightarrow> split_on c (join [c] ls) = ls"
proof (induction "[c]" ls rule: join.induct)
  case 1
  then show ?case by simp
next
  case (2 x)
  then show ?case by (simp add: split_on_single)
next
  case (3 x y ys)
  then show ?case by (simp add: split_on_line)
qed

lemma kept_lines_no_nl:
  "list_all (\<lambda>l. CHR 0x0A \<notin> set l)
     (filter (\<lambda>line. \<not> is_stale_team_line line) (split_on CHR 0x0A s))"
  by (auto simp: list_all_iff dest: split_on_no_sep)

text \<open>
  The filter as the spec describes it keeps the lines that assert no team structure, as
  they are and in order, and filtering twice is filtering once.
\<close>

lemma filterStaleTeamReferences_lines:
  "filter (\<lambda>line. \<not> is_stale_team_line line) (split_on CHR 0x0A s) \<noteq> [] \<Longrightarrow>
   split_on CHR 0x0A (filterStaleTeamReferences s) =
     filter (\<lambda>line. \<not> is_stale_team_line line) (split_on CHR 0x0A s)"
  using kept_lines_no_nl [of s]
  by (simp add: filterStaleTeamReferences_def nl_def split_on_join)

lemma filterStaleTeamReferences_idem:
  "filterStaleTeamReferences (filterStaleTeamReferences s) = filterStaleTeamReferences s"
proof (cases "filter (\<lambda>line. \<not> is_stale_team_line line) (split_on CHR 0x0A s) = []")
  case True
  then have "filterStaleTeamReferences s = []"
    by (simp add: filterStaleTeamReferences_def)
  then show ?thesis
    by (simp add: filterStaleTeamReferences_def)
next
  case False
  from filterStaleTeamReferences_lines [OF False]
  show ?thesis by (simp add: filterStaleTeamReferences_def)
qed

lemma test_team_observations_filtered:
  "filterStaleTeamReferences test_team_observations =
     ''* HIGH (10:00) User prefers Python'' @ nl @ ''* HIGH (10:10) Project uses FastAPI''"
  by code_simp


section \<open>The mention router\<close>

lemma first_per_teammate_subset: "set (first_per_teammate seen ms) \<subseteq> set ms"
  by (induction ms arbitrary: seen) auto

lemma tag_mentions_member:
  "m \<in> set (tag_mentions self teamId teams agents tag) \<Longrightarrow>
   dm_teammateId m \<in> set (tag_ids tag) \<and> dm_message m = tag_context tag @ tag_clause tag \<and>
   dm_sourceAgentId m = self \<and> isTeammate (dm_teammateId m) self teamId teams agents"
  by (auto simp: tag_mentions_def)

text \<open>
  C1. When the text has a well-formed bracket tag, the mentions are those of the bracket
  tags alone: every mention names a recognised teammate among the ids of a tag and carries
  that tag's context and clause, and the bare tokens of the text are not looked at.
\<close>

theorem C1_bracket_tags_exclusive:
  assumes "bracket_tags response \<noteq> []"
  shows "extractTeammateMentions response self teamId teams agents =
           bracket_mentions response self teamId teams agents \<and>
         (\<forall>m \<in> set (extractTeammateMentions response self teamId teams agents).
            \<exists>tag \<in> set (bracket_tags response).
              dm_teammateId m \<in> set (tag_ids tag) \<and>
              dm_message m = tag_context tag @ tag_clause tag \<and>
              dm_sourceAgentId m = self \<and>
              isTeammate (dm_teammateId m) self teamId teams agents)"
proof (intro conjI ballI)
  show eq: "extractTeammateMentions response self teamId teams agents =
              bracket_mentions response self teamId teams agents"
    using assms by (simp add: extractTeammateMentions_def)
  fix m
  assume "m \<in> set (extractTeammateMentions response self teamId teams agents)"
  then have "m \<in> set (concat (map (tag_mentions self teamId teams agents)
                                   (bracket_tags response)))"
    using first_per_teammate_subset unfolding eq bracket_mentions_def by blast
  then obtain tag where "tag \<in> set (bracket_tags response)"
    "m \<in> set (tag_mentions self teamId teams agents tag)" by auto
  then show "\<exists>tag \<in> set (bracket_tags response).
              dm_teammateId m \<in> set (tag_ids tag) \<and>
              dm_message m = tag_context tag @ tag_clause tag \<and>
              dm_sourceAgentId m = self \<and>
              isTeammate (dm_teammateId m) self teamId teams agents"
    using tag_mentions_member by blast
qed

lemma test_bracket_and_bare_tags:
  "bracket_tags test_bracket_and_bare =
     [\<lparr>tag_context = [], tag_ids = [''agent-b''], tag_clause = ''Review this.'',
       tag_length = 24\<rparr>]"
  by code_simp

lemma test_bracket_and_bare_mentions:
  "bracket_mentions test_bracket_and_bare ''agent-a'' ''test-team'' test_teams test_agents =
     [\<lparr>dm_teammateId = ''agent-b'', dm_message = ''Review this.'',
       dm_sourceAgentId = ''agent-a''\<rparr>]"
  by code_simp

lemma test_bare_token:
  "''agent-c'' \<in> set (bare_tokens test_bracket_and_bare)"
  "resolve_token ''agent-c'' ''agent-a'' ''test-team'' test_teams test_agents = Some ''agent-c''"
  by code_simp+

theorem C1_bracket_tags_witness:
  "bracket_tags test_bracket_and_bare \<noteq> [] \<and>
   ''agent-c'' \<in> set (bare_tokens test_bracket_and_bare) \<and>
   resolve_token ''agent-c'' ''agent-a'' ''test-team'' test_teams test_agents = Some ''agent-c'' \<and>
   extractTeammateMentions test_bracket_and_bare ''agent-a'' ''test-team'' test_teams test_agents =
     [\<lparr>dm_teammateId = ''agent-b'', dm_message = ''Review this.'',
       dm_sourceAgentId = ''agent-a''\<rparr>]"
  using C1_bracket_tags_exclusive
          [of test_bracket_and_bare "''agent-a''" "''test-team''" test_teams test_agents]
  by (simp add: test_bracket_and_bare_tags test_bracket_and_bare_mentions test_bare_token)

end
